theory Spec2Isabelle
  imports Main
begin

section \<open>Data model of the REST client\<close>

text \<open>
  Go strings and byte slices are both sequences of bytes; an Isabelle \<open>char\<close> is one
  byte, so both are modelled by \<open>string\<close>.  Instants of \<open>time.Time\<close> are integers on
  one time line whose origin is the zero value of \<open>time.Time\<close>.
\<close>

type_synonym bytes = string
type_synonym instant = int
type_synonym MimeType = string

definition JsonType :: MimeType where
  "JsonType = ''application/json''"


definition headerContentType :: string where
  "headerContentType = ''Content-Type''"

definition headerAccept :: string where
  "headerAccept = ''Accept''"

text \<open>
  The structured values that travel as \<open>interface{}\<close> content and are neither strings,
  byte slices nor streams: the three wire structures of the Identity v2.0 flow, and any
  other value of the caller (kept opaque).  A nil pointer of some pointer type is such a
  value too: stored in an interface it is not the nil interface value, so it passes the
  test \<open>Content != nil\<close>.
\<close>

datatype gvalue =
    IdentityAuthApikeyReq string string
  | IdentityAuthPasswordReq string string
  | IdentityAuthResp string instant
  | UserValue string
  | NilPointer

text \<open>
  A stream object held in an entity: it may implement \<open>io.Reader\<close>, \<open>io.Writer\<close> or
  both (as \<open>*bytes.Buffer\<close> does); writing to it may fail.
\<close>

record stream =
  handle :: nat
  readable :: bool
  writable :: bool
  write_err :: "string option"

text \<open>The dynamic shape of \<open>Entity.Content\<close> (an \<open>interface{}\<close>).\<close>

datatype content =
    NilContent
  | StringContent string
  | BytesContent bytes
  | StreamContent stream
  | ValueContent gvalue

record Entity =
  ContentType :: MimeType
  Content :: content

definition NewJsonEntity :: "content \<Rightarrow> Entity" where
  "NewJsonEntity c = \<lparr>ContentType = JsonType, Content = c\<rparr>"


text \<open>
  Go error values.  \<open>Errorf\<close> is an error made from a message alone (\<open>errors.New\<close>,
  \<open>fmt.Errorf\<close> without \<open>%w\<close>); \<open>Wrap m e\<close> is \<open>fmt.Errorf(m + ": %w", e)\<close>;
  \<open>FailedResponseError\<close> carries status code, status line and entity; \<open>External\<close> is an
  error produced by a library behind the client (transport, codec, URL parser, streams).
\<close>

datatype error =
    Errorf string
  | Wrap string error
  | FailedResponseError int string "Entity option"
  | External string

record url =
  raw :: string
  RawQuery :: string

datatype ctx = Background | Given nat

datatype reqbody = NoBody | BufferBody bytes | ReaderBody stream

record request =
  Method :: string
  URL :: url
  ReqHeader :: "(string \<times> string) list"
  ReqBody :: reqbody
  Ctx :: "ctx \<times> int"

text \<open>
  A response body is an \<open>io.ReadCloser\<close>: reading it to the end delivers \<open>body_data\<close>
  and then either end of file or the error \<open>read_err\<close>; closing it returns \<open>close_err\<close>.
\<close>

record body =
  body_id :: nat
  body_data :: bytes
  read_err :: "error option"
  close_err :: "error option"

record response =
  StatusCode :: int
  Status :: string
  Header :: "(string \<times> string) list"
  Body :: body

text \<open>Setting and reading a header field.\<close>

definition Header_Set :: "(string \<times> string) list \<Rightarrow> string \<Rightarrow> string \<Rightarrow> (string \<times> string) list" where
  "Header_Set h k v = (k, v) # filter (\<lambda>p. fst p \<noteq> k) h"

definition Header_Get :: "(string \<times> string) list \<Rightarrow> string \<Rightarrow> string" where
  "Header_Get h k = (case map_of h k of None \<Rightarrow> [] | Some v \<Rightarrow> v)"

subsection \<open>The world the client acts on\<close>

text \<open>
  The observable effects of the code are recorded in a trace: a request handed to the
  transport, a response body read or closed, bytes written to a caller's stream, and a
  line logged by an interceptor.
\<close>

datatype event =
    Sent request
  | BodyRead nat
  | BodyClosed nat
  | StreamWrite nat bytes
  | Logged string

text \<open>
  The private client of an authenticator is made by \<open>New()\<close> and only gets a base URL
  and a timeout; no interceptor is ever added to it, so its two set fields are kept.
\<close>

record identityV2AuthenticatorImpl =
  username :: string
  password :: string
  apikey :: string
  restClient_BaseUrl :: "url option"
  restClient_Timeout :: int
  token :: string
  tokenExpiration :: instant

record world =
  now :: instant
  trace :: "event list"
  heap :: "nat \<Rightarrow> identityV2AuthenticatorImpl option"
  next_addr :: nat

datatype 'a outcome = Return 'a | Panic string

type_synonym result = "(response option \<times> error option) outcome"
type_synonym NextCallback = "request \<Rightarrow> world \<Rightarrow> result \<times> world"
type_synonym Interceptor = "request \<Rightarrow> NextCallback \<Rightarrow> world \<Rightarrow> result \<times> world"

text \<open>
  The libraries behind the client, taken as parameters: URL parsing and reference
  resolution, query encoding, the JSON encoder and decoder, the validation done by
  \<open>http.NewRequestWithContext\<close>, and the transport \<open>http.DefaultClient.Do\<close>, which
  answers a request in a given world.
\<close>

record env =
  url_Parse :: "string \<Rightarrow> error + url"
  url_ParseRef :: "url \<Rightarrow> string \<Rightarrow> error + url"
  query_Encode :: "(string \<times> string list) list \<Rightarrow> string"
  json_Encode :: "content \<Rightarrow> error + bytes"
  json_Decode :: "body \<Rightarrow> content \<Rightarrow> error option \<times> content"
  http_NewRequest :: "string \<Rightarrow> url \<Rightarrow> error option"
  http_Do :: "world \<Rightarrow> request \<Rightarrow> response option \<times> error option"

record Client =
  BaseUrl :: "url option"
  Timeout :: int
  interceptors :: "Interceptor list"

definition New :: Client where
  "New = \<lparr>BaseUrl = None, Timeout = 0, interceptors = []\<rparr>"

definition AddInterceptor :: "Client \<Rightarrow> Interceptor \<Rightarrow> Client" where
  "AddInterceptor c it = c\<lparr>interceptors := interceptors c @ [it]\<rparr>"

section \<open>The interceptor chain\<close>

text \<open>
  \<open>doRequest\<close> walks the list of interceptors from the element it is given; the list
  element \<open>nil\<close> is the empty remainder.
\<close>

primrec doRequest :: "env \<Rightarrow> request \<Rightarrow> Interceptor list \<Rightarrow> world \<Rightarrow> result \<times> world" where
  "doRequest e req [] w = (Return (http_Do e w req), w\<lparr>trace := trace w @ [Sent req]\<rparr>)"
| "doRequest e req (interceptor # rest) w =
     (case interceptor req (\<lambda>newReq. doRequest e newReq rest) w of
        (Panic p, w') \<Rightarrow> (Panic p, w')
      | (Return (response, err), w') \<Rightarrow>
          if err \<noteq> None then (Return (None, err), w') else (Return (response, err), w'))"

section \<open>Building the request\<close>

definition SetBaseUrl :: "env \<Rightarrow> Client \<Rightarrow> string \<Rightarrow> error option \<times> Client" where
  "SetBaseUrl e c rawurl =
     (case url_Parse e rawurl of
        Inl err \<Rightarrow> (Some (Wrap ''failed to parse given base url'' err), c)
      | Inr u \<Rightarrow> (None, c\<lparr>BaseUrl := Some u\<rparr>))"

text \<open>Durations are counted in seconds.\<close>

definition defaultRestClientTimeout :: int where
  "defaultRestClientTimeout = 60"

definition timeout :: "Client \<Rightarrow> int" where
  "timeout c = (if Timeout c \<noteq> 0 then Timeout c else defaultRestClientTimeout)"

definition buildReqUrl :: "env \<Rightarrow> Client \<Rightarrow> string \<Rightarrow> (string \<times> string list) list \<Rightarrow> error + url" where
  "buildReqUrl e c urlIn query =
     (case (case BaseUrl c of
              Some b \<Rightarrow>
                (case url_ParseRef e b urlIn of
                   Inl err \<Rightarrow> Inl (Wrap ''failed to parse given url relative to base'' err)
                 | Inr u \<Rightarrow> Inr u)
            | None \<Rightarrow>
                (case url_Parse e urlIn of
                   Inl err \<Rightarrow> Inl (Wrap (''filed to parse given url '' @ urlIn) err)
                 | Inr u \<Rightarrow> Inr u)) of
        Inl err \<Rightarrow> Inl err
      | Inr reqUrl \<Rightarrow>
          Inr (if length query > 0 then reqUrl\<lparr>RawQuery := query_Encode e query\<rparr> else reqUrl))"

text \<open>The type assertions of the two shape dispatches.\<close>

fun as_string :: "content \<Rightarrow> string option" where
  "as_string (StringContent s) = Some s"
| "as_string c = None"

fun as_bytes :: "content \<Rightarrow> bytes option" where
  "as_bytes (BytesContent b) = Some b"
| "as_bytes c = None"

fun as_Reader :: "content \<Rightarrow> stream option" where
  "as_Reader (StreamContent st) = (if readable st then Some st else None)"
| "as_Reader c = None"

fun as_Writer :: "content \<Rightarrow> stream option" where
  "as_Writer (StreamContent st) = (if writable st then Some st else None)"
| "as_Writer c = None"

definition buildBodyReader :: "env \<Rightarrow> Entity option \<Rightarrow> error + reqbody" where
  "buildBodyReader e reqIn =
     (case reqIn of
        None \<Rightarrow> Inr NoBody
      | Some ent \<Rightarrow>
          (case as_string (Content ent) of
             Some s \<Rightarrow> Inr (BufferBody s)
           | None \<Rightarrow>
          (case as_bytes (Content ent) of
             Some b \<Rightarrow> Inr (BufferBody b)
           | None \<Rightarrow>
          (case as_Reader (Content ent) of
             Some r \<Rightarrow> Inr (ReaderBody r)
           | None \<Rightarrow>
          if ContentType ent = JsonType \<and> Content ent \<noteq> NilContent then
            (case json_Encode e (Content ent) of
               Inl err \<Rightarrow> Inl (Wrap ''failed to encode body'' err)
             | Inr buffer \<Rightarrow> Inr (BufferBody buffer))
          else Inl (Errorf ''unsupported combination of request content and type'')))))"

definition buildRequest ::
    "env \<Rightarrow> ctx \<times> int \<Rightarrow> string \<Rightarrow> url \<Rightarrow> reqbody \<Rightarrow> Entity option \<Rightarrow> Entity option \<Rightarrow> error + request" where
  "buildRequest e timeoutCtx meth reqUrl bodyReader reqIn respOut =
     (case http_NewRequest e meth reqUrl of
        Some err \<Rightarrow> Inl (Wrap ''failed to setup request'' err)
      | None \<Rightarrow>
          (let req0 = \<lparr>Method = meth, URL = reqUrl, ReqHeader = [], ReqBody = bodyReader,
                       Ctx = timeoutCtx\<rparr>;
               req1 = (case reqIn of
                         None \<Rightarrow> req0
                       | Some ent \<Rightarrow>
                           if ContentType ent \<noteq> [] then
                             req0\<lparr>ReqHeader := Header_Set (ReqHeader req0) headerContentType (ContentType ent)\<rparr>
                           else req0);
               req2 = (case respOut of
                         None \<Rightarrow> req1
                       | Some ent \<Rightarrow>
                           if ContentType ent \<noteq> [] then
                             req1\<lparr>ReqHeader := Header_Set (ReqHeader req1) headerAccept (ContentType ent)\<rparr>
                           else req1)
           in Inr req2))"

section \<open>Processing the response\<close>

text \<open>
  \<open>io.Copy\<close> from a response body into a fresh buffer, and into a caller's stream; and
  \<open>Body.Close\<close>.  A stream whose writes fail refuses the first chunk.
\<close>

definition io_Copy_buffer :: "body \<Rightarrow> world \<Rightarrow> (bytes \<times> error option) \<times> world" where
  "io_Copy_buffer b w =
     ((body_data b, read_err b), w\<lparr>trace := trace w @ [BodyRead (body_id b)]\<rparr>)"

definition io_Copy_stream :: "stream \<Rightarrow> body \<Rightarrow> world \<Rightarrow> error option \<times> world" where
  "io_Copy_stream st b w =
     (if body_data b \<noteq> [] \<and> write_err st \<noteq> None then
        (map_option External (write_err st), w\<lparr>trace := trace w @ [BodyRead (body_id b)]\<rparr>)
      else
        (read_err b,
         w\<lparr>trace := trace w @ [BodyRead (body_id b), StreamWrite (handle st) (body_data b)]\<rparr>))"

definition Body_Close :: "body \<Rightarrow> world \<Rightarrow> error option \<times> world" where
  "Body_Close b w = (close_err b, w\<lparr>trace := trace w @ [BodyClosed (body_id b)]\<rparr>)"

definition processResponseContent ::
    "env \<Rightarrow> Entity \<Rightarrow> response \<Rightarrow> world \<Rightarrow> (error option \<times> Entity) \<times> world" where
  "processResponseContent e respOut resp w =
     (case as_string (Content respOut) of
        Some _ \<Rightarrow>
          (case io_Copy_buffer (Body resp) w of
             ((buffer, Some err), w1) \<Rightarrow>
               ((Some (Wrap ''failed to read response body'' err), respOut), w1)
           | ((buffer, None), w1) \<Rightarrow>
               ((None, respOut\<lparr>Content := StringContent buffer\<rparr>), w1))
      | None \<Rightarrow>
     (case as_bytes (Content respOut) of
        Some _ \<Rightarrow>
          (case io_Copy_buffer (Body resp) w of
             ((buffer, Some err), w1) \<Rightarrow>
               ((Some (Wrap ''failed to read response body'' err), respOut), w1)
           | ((buffer, None), w1) \<Rightarrow>
               ((None, respOut\<lparr>Content := BytesContent buffer\<rparr>), w1))
      | None \<Rightarrow>
     (case as_Writer (Content respOut) of
        Some wr \<Rightarrow>
          (case io_Copy_stream wr (Body resp) w of
             (Some err, w1) \<Rightarrow>
               ((Some (Wrap ''failed to read response body'' err), respOut), w1)
           | (None, w1) \<Rightarrow> ((None, respOut), w1))
      | None \<Rightarrow>
     if ContentType respOut = JsonType \<and> Content respOut \<noteq> NilContent then
       (case json_Decode e (Body resp) (Content respOut) of
          (Some err, c) \<Rightarrow>
            ((Some (Wrap ''failed to decode response'' err), respOut\<lparr>Content := c\<rparr>),
             w\<lparr>trace := trace w @ [BodyRead (body_id (Body resp))]\<rparr>)
        | (None, c) \<Rightarrow>
            ((None, respOut\<lparr>Content := c\<rparr>),
             w\<lparr>trace := trace w @ [BodyRead (body_id (Body resp))]\<rparr>))
     else
       ((Some (Errorf ''unsupported combination of request content reference and type''),
         respOut), w))))"

definition buildFailedResponseError :: "response \<Rightarrow> world \<Rightarrow> error \<times> world" where
  "buildFailedResponseError resp w =
     (case io_Copy_buffer (Body resp) w of
        ((buffer, _), w1) \<Rightarrow>
          (case Body_Close (Body resp) w1 of
             (_, w2) \<Rightarrow>
               (FailedResponseError (StatusCode resp) (Status resp)
                  (Some \<lparr>ContentType = Header_Get (Header resp) headerContentType,
                         Content = BytesContent buffer\<rparr>),
                w2)))"

section \<open>Exchange\<close>

text \<open>
  An exchange returns its error (or panics), the response entity as the call left it,
  and the world after the call.
\<close>

definition ExchangeWithContext ::
    "env \<Rightarrow> Client \<Rightarrow> ctx option \<Rightarrow> string \<Rightarrow> string \<Rightarrow> (string \<times> string list) list \<Rightarrow>
     Entity option \<Rightarrow> Entity option \<Rightarrow> world \<Rightarrow> (error option outcome \<times> Entity option) \<times> world" where
  "ExchangeWithContext e c cx meth urlIn query reqIn respOut w =
     (case buildReqUrl e c urlIn query of
        Inl err \<Rightarrow> ((Return (Some err), respOut), w)
      | Inr reqUrl \<Rightarrow>
     (case buildBodyReader e reqIn of
        Inl err \<Rightarrow> ((Return (Some err), respOut), w)
      | Inr bodyReader \<Rightarrow>
     (case buildRequest e (case cx of None \<Rightarrow> Background | Some x \<Rightarrow> x, timeout c)
             meth reqUrl bodyReader reqIn respOut of
        Inl err \<Rightarrow> ((Return (Some err), respOut), w)
      | Inr req \<Rightarrow>
     (case doRequest e req (interceptors c) w of
        (Panic p, w1) \<Rightarrow> ((Panic p, respOut), w1)
      | (Return (resp, Some err), w1) \<Rightarrow>
          ((Return (Some (Wrap ''failed to send request'' err)), respOut), w1)
      | (Return (None, None), w1) \<Rightarrow>
          ((Panic ''invalid memory address or nil pointer dereference'', respOut), w1)
      | (Return (Some resp, None), w1) \<Rightarrow>
          if StatusCode resp \<ge> 300 then
            (case buildFailedResponseError resp w1 of
               (err, w2) \<Rightarrow> ((Return (Some err), respOut), w2))
          else
            (case (case respOut of
                     None \<Rightarrow> ((None, None), w1)
                   | Some ro \<Rightarrow>
                       (case processResponseContent e ro resp w1 of
                          ((err, ro'), w2) \<Rightarrow> ((err, Some ro'), w2))) of
               ((Some err, respOut'), w2) \<Rightarrow>
                 (case Body_Close (Body resp) w2 of
                    (_, w3) \<Rightarrow> ((Return (Some err), respOut'), w3))
             | ((None, respOut'), w2) \<Rightarrow>
                 (case Body_Close (Body resp) w2 of
                    (Some err, w3) \<Rightarrow>
                      ((Return (Some (Wrap ''failed to close response body'' err)), respOut'), w3)
                  | (None, w3) \<Rightarrow> ((Return None, respOut'), w3)))))))"

definition Exchange ::
    "env \<Rightarrow> Client \<Rightarrow> string \<Rightarrow> string \<Rightarrow> (string \<times> string list) list \<Rightarrow>
     Entity option \<Rightarrow> Entity option \<Rightarrow> world \<Rightarrow> (error option outcome \<times> Entity option) \<times> world" where
  "Exchange e c meth urlIn query reqIn respOut w =
     ExchangeWithContext e c None meth urlIn query reqIn respOut w"

text \<open>
  The first three steps of \<open>ExchangeWithContext\<close> taken together: the request the
  exchange hands to the chain, or the error it returns before anything is sent.
\<close>

definition prepare ::
    "env \<Rightarrow> Client \<Rightarrow> ctx option \<Rightarrow> string \<Rightarrow> string \<Rightarrow> (string \<times> string list) list \<Rightarrow>
     Entity option \<Rightarrow> Entity option \<Rightarrow> error + request" where
  "prepare e c cx meth urlIn query reqIn respOut =
     (case buildReqUrl e c urlIn query of
        Inl err \<Rightarrow> Inl err
      | Inr reqUrl \<Rightarrow>
     (case buildBodyReader e reqIn of
        Inl err \<Rightarrow> Inl err
      | Inr bodyReader \<Rightarrow>
          buildRequest e (case cx of None \<Rightarrow> Background | Some x \<Rightarrow> x, timeout c)
            meth reqUrl bodyReader reqIn respOut))"

text \<open>
  The rest of \<open>ExchangeWithContext\<close>, from the result of the chain on: the wrap of a
  chain error, the classification by status code, the processing of the response content
  and the close of the body.
\<close>

definition conclude ::
    "env \<Rightarrow> Entity option \<Rightarrow> result \<times> world \<Rightarrow> (error option outcome \<times> Entity option) \<times> world" where
  "conclude e respOut rw =
     (case rw of
        (Panic p, w1) \<Rightarrow> ((Panic p, respOut), w1)
      | (Return (resp, Some err), w1) \<Rightarrow>
          ((Return (Some (Wrap ''failed to send request'' err)), respOut), w1)
      | (Return (None, None), w1) \<Rightarrow>
          ((Panic ''invalid memory address or nil pointer dereference'', respOut), w1)
      | (Return (Some resp, None), w1) \<Rightarrow>
          if StatusCode resp \<ge> 300 then
            (case buildFailedResponseError resp w1 of
               (err, w2) \<Rightarrow> ((Return (Some err), respOut), w2))
          else
            (case (case respOut of
                     None \<Rightarrow> ((None, None), w1)
                   | Some ro \<Rightarrow>
                       (case processResponseContent e ro resp w1 of
                          ((err, ro'), w2) \<Rightarrow> ((err, Some ro'), w2))) of
               ((Some err, respOut'), w2) \<Rightarrow>
                 (case Body_Close (Body resp) w2 of
                    (_, w3) \<Rightarrow> ((Return (Some err), respOut'), w3))
             | ((None, respOut'), w2) \<Rightarrow>
                 (case Body_Close (Body resp) w2 of
                    (Some err, w3) \<Rightarrow>
                      ((Return (Some (Wrap ''failed to close response body'' err)), respOut'), w3)
                  | (None, w3) \<Rightarrow> ((Return None, respOut'), w3))))"

section \<open>The Identity v2.0 authenticator\<close>

definition authTimeout :: int where
  "authTimeout = 60"

definition restClient :: "identityV2AuthenticatorImpl \<Rightarrow> Client" where
  "restClient a =
     \<lparr>BaseUrl = restClient_BaseUrl a, Timeout = restClient_Timeout a, interceptors = []\<rparr>"

text \<open>
  An assignment to fields of the authenticator object at address \<open>a\<close>.  The methods
  below take the address of their receiver; an address that holds no object is a nil
  receiver.
\<close>

definition update_impl ::
    "nat \<Rightarrow> (identityV2AuthenticatorImpl \<Rightarrow> identityV2AuthenticatorImpl) \<Rightarrow> world \<Rightarrow> world" where
  "update_impl a f w = w\<lparr>heap := (\<lambda>x. if x = a then map_option f (heap w x) else heap w x)\<rparr>"

text \<open>The credentials structure that \<open>authenticate\<close> builds first.\<close>

definition credentials :: "identityV2AuthenticatorImpl \<Rightarrow> gvalue" where
  "credentials a =
     (if apikey a \<noteq> [] then IdentityAuthApikeyReq (username a) (apikey a)
      else IdentityAuthPasswordReq (username a) (password a))"

text \<open>
  The fields read from the decoded response.  The local \<open>resp\<close> always has the type
  \<open>identityAuthResp\<close>; a decoder that hands back another shape leaves its zero value.
\<close>

definition decoded_token :: "Entity option \<Rightarrow> string \<times> instant" where
  "decoded_token respOut =
     (case respOut of
        Some ent \<Rightarrow>
          (case Content ent of
             ValueContent (IdentityAuthResp i x) \<Rightarrow> (i, x)
           | _ \<Rightarrow> ([], 0))
      | None \<Rightarrow> ([], 0))"

text \<open>
  The nested exchange of \<open>authenticate\<close>: a POST of the credentials to the token path
  through the private client, expecting JSON decoded into a fresh \<open>identityAuthResp\<close>.
\<close>

definition token_exchange ::
    "env \<Rightarrow> identityV2AuthenticatorImpl \<Rightarrow> world \<Rightarrow>
     (error option outcome \<times> Entity option) \<times> world" where
  "token_exchange e impl w =
     Exchange e (restClient impl) ''POST'' ''/v2.0/tokens'' []
       (Some (NewJsonEntity (ValueContent (credentials impl))))
       (Some (NewJsonEntity (ValueContent (IdentityAuthResp [] 0)))) w"

definition authenticate :: "env \<Rightarrow> nat \<Rightarrow> world \<Rightarrow> error option outcome \<times> world" where
  "authenticate e a w =
     (case heap w a of
        None \<Rightarrow> (Panic ''invalid memory address or nil pointer dereference'', w)
      | Some impl \<Rightarrow>
          (case token_exchange e impl w of
             ((Panic p, _), w1) \<Rightarrow> (Panic p, w1)
           | ((Return (Some err), _), w1) \<Rightarrow>
               (Return (Some (Wrap ''failed to issue token request'' err)), w1)
           | ((Return None, respOut), w1) \<Rightarrow>
               (Return None,
                update_impl a
                  (\<lambda>i. i\<lparr>token := fst (decoded_token respOut),
                         tokenExpiration := snd (decoded_token respOut)\<rparr>) w1)))"

text \<open>\<open>t.After(u)\<close> of \<open>time.Time\<close>.\<close>

definition After :: "instant \<Rightarrow> instant \<Rightarrow> bool" where
  "After t u = (t > u)"

definition intercept :: "env \<Rightarrow> nat \<Rightarrow> Interceptor" where
  "intercept e a req next w =
     (case heap w a of
        None \<Rightarrow> (Panic ''invalid memory address or nil pointer dereference'', w)
      | Some impl \<Rightarrow>
          (case (if After (now w) (tokenExpiration impl) then authenticate e a w
                 else (Return None, w)) of
             (Panic p, w1) \<Rightarrow> (Panic p, w1)
           | (Return (Some err), w1) \<Rightarrow> (Return (None, Some err), w1)
           | (Return None, w1) \<Rightarrow>
               (case heap w1 a of
                  None \<Rightarrow> (Panic ''invalid memory address or nil pointer dereference'', w1)
                | Some impl1 \<Rightarrow>
                    next (req\<lparr>ReqHeader := Header_Set (ReqHeader req) ''x-auth-token'' (token impl1)\<rparr>)
                      w1)))"

definition IdentityV2Authenticator ::
    "env \<Rightarrow> string \<Rightarrow> string \<Rightarrow> string \<Rightarrow> string \<Rightarrow> world \<Rightarrow> (error + Interceptor) \<times> world" where
  "IdentityV2Authenticator e identityUrl usernameIn passwordIn apikeyIn w =
     (if usernameIn = [] then (Inl (Errorf ''username is required''), w)
      else if passwordIn = [] \<and> apikeyIn = [] then
        (Inl (Errorf ''password or Apikey is required''), w)
      else
        (case SetBaseUrl e New identityUrl of
           (Some err, _) \<Rightarrow> (Inl (Wrap ''invalid Identity URL'' err), w)
         | (None, rc) \<Rightarrow>
             (Inr (intercept e (next_addr w)),
              w\<lparr>heap := (heap w)(next_addr w \<mapsto>
                     \<lparr>username = usernameIn, password = passwordIn, apikey = apikeyIn,
                      restClient_BaseUrl = BaseUrl rc, restClient_Timeout = authTimeout,
                      token = [], tokenExpiration = 0\<rparr>),
                 next_addr := Suc (next_addr w)\<rparr>)))"

text \<open>\<open>BasicAuth\<close> sets the Authorization header and delegates.\<close>

definition BasicAuth :: "(string \<Rightarrow> string \<Rightarrow> string) \<Rightarrow> string \<Rightarrow> string \<Rightarrow> Interceptor" where
  "BasicAuth basic u p req next w =
     next (req\<lparr>ReqHeader := Header_Set (ReqHeader req) ''Authorization'' (basic u p)\<rparr>) w"

section \<open>Interceptors that delegate once, and the two paths of a chain\<close>

text \<open>
  An interceptor of the usual form: code before the call of \<open>next\<close> (it may change the
  request), the call of \<open>next\<close>, and code after it (it may change the result).  A panic
  of \<open>next\<close> unwinds through the interceptor.
\<close>

definition passing ::
    "(request \<Rightarrow> world \<Rightarrow> request \<times> world) \<Rightarrow>
     (response option \<times> error option \<Rightarrow> world \<Rightarrow> (response option \<times> error option) \<times> world) \<Rightarrow>
     Interceptor" where
  "passing pre post req next w =
     (case pre req w of
        (req', w1) \<Rightarrow>
          (case next req' w1 of
             (Panic p, w2) \<Rightarrow> (Panic p, w2)
           | (Return r, w2) \<Rightarrow> (case post r w2 of (r', w3) \<Rightarrow> (Return r', w3))))"

text \<open>What a link of the chain hands back for the pair its interceptor returned.\<close>

definition link_return :: "response option \<times> error option \<Rightarrow> response option \<times> error option" where
  "link_return r = (if snd r \<noteq> None then (None, snd r) else r)"

text \<open>
  The request path runs the pre-code of a list of interceptors from left to right; the
  response path runs post-code from left to right over a result, each followed by the
  hand-back of its link.
\<close>

fun request_path ::
    "(request \<Rightarrow> world \<Rightarrow> request \<times> world) list \<Rightarrow> request \<Rightarrow> world \<Rightarrow> request \<times> world" where
  "request_path [] req w = (req, w)"
| "request_path (pre # ps) req w = (case pre req w of (req', w1) \<Rightarrow> request_path ps req' w1)"

fun response_path ::
    "(response option \<times> error option \<Rightarrow> world \<Rightarrow> (response option \<times> error option) \<times> world) list \<Rightarrow>
     result \<times> world \<Rightarrow> result \<times> world" where
  "response_path [] rw = rw"
| "response_path (post # ps) rw =
     (case rw of
        (Panic p, w) \<Rightarrow> (Panic p, w)
      | (Return r, w) \<Rightarrow>
          (case post r w of (r', w1) \<Rightarrow> response_path ps (Return (link_return r'), w1)))"

text \<open>A logging interceptor: one line before delegating, one line after.\<close>

definition log_before :: "string \<Rightarrow> request \<Rightarrow> world \<Rightarrow> request \<times> world" where
  "log_before name req w = (req, w\<lparr>trace := trace w @ [Logged (''OUT '' @ name)]\<rparr>)"

definition log_after ::
    "string \<Rightarrow> response option \<times> error option \<Rightarrow> world \<Rightarrow> (response option \<times> error option) \<times> world" where
  "log_after name r w = (r, w\<lparr>trace := trace w @ [Logged (''IN '' @ name)]\<rparr>)"

definition logging :: "string \<Rightarrow> Interceptor" where
  "logging name = passing (log_before name) (log_after name)"



section \<open>Example data\<close>

definition example_url :: url where
  "example_url = \<lparr>raw = ''http://your.own.domain/ping'', RawQuery = []\<rparr>"

definition example_request :: request where
  "example_request =
     \<lparr>Method = ''POST'', URL = example_url, ReqHeader = [], ReqBody = NoBody,
      Ctx = (Background, 60)\<rparr>"

definition example_body :: "error option \<Rightarrow> body" where
  "example_body cerr =
     \<lparr>body_id = 7, body_data = ''error text'', read_err = None, close_err = cerr\<rparr>"

definition example_response :: "int \<Rightarrow> error option \<Rightarrow> response" where
  "example_response code cerr =
     \<lparr>StatusCode = code, Status = ''status line'',
      Header = [(''Content-Type'', ''text/plain'')], Body = example_body cerr\<rparr>"

definition example_world :: "instant \<Rightarrow> world" where
  "example_world t = \<lparr>now = t, trace = [], heap = (\<lambda>a. None), next_addr = 0\<rparr>"

text \<open>
  Libraries that accept every URL and method, encode the two credentials structures by
  their flavor and fields, a nil pointer as \<open>null\<close> and a line feed (as
  \<open>json.Encoder\<close> does) and every other value as \<open>{}\<close>, decode every body to a
  token \<open>tok\<close> that expires at instant 1000, and a transport given as argument.
\<close>

definition example_encode :: "content \<Rightarrow> error + bytes" where
  "example_encode c =
     (case c of
        ValueContent (IdentityAuthApikeyReq u k) \<Rightarrow> Inr (''apiKeyCredentials '' @ u @ '' '' @ k)
      | ValueContent (IdentityAuthPasswordReq u p) \<Rightarrow>
          Inr (''passwordCredentials '' @ u @ '' '' @ p)
      | ValueContent NilPointer \<Rightarrow> Inr (''null'' @ [CHR 0x0A])
      | _ \<Rightarrow> Inr ''{}'')"

definition example_env :: "(world \<Rightarrow> request \<Rightarrow> response option \<times> error option) \<Rightarrow> env" where
  "example_env transport =
     \<lparr>url_Parse = (\<lambda>s. Inr \<lparr>raw = s, RawQuery = []\<rparr>),
      url_ParseRef = (\<lambda>b s. Inr \<lparr>raw = raw b @ s, RawQuery = []\<rparr>),
      query_Encode = (\<lambda>q. concat (map fst q)),
      json_Encode = example_encode,
      json_Decode = (\<lambda>b c. (None, ValueContent (IdentityAuthResp ''tok'' 1000))),
      http_NewRequest = (\<lambda>m u. None),
      http_Do = transport\<rparr>"

definition serving :: "int \<Rightarrow> error option \<Rightarrow> world \<Rightarrow> request \<Rightarrow> response option \<times> error option" where
  "serving code cerr w req = (Some (example_response code cerr), None)"


text \<open>The request that a plain \<open>GET /ping\<close> of a fresh client hands to its chain.\<close>

definition example_get :: request where
  "example_get =
     \<lparr>Method = ''GET'', URL = \<lparr>raw = ''/ping'', RawQuery = []\<rparr>, ReqHeader = [],
      ReqBody = NoBody, Ctx = (Background, 60)\<rparr>"

text \<open>The same libraries with a JSON decoder that rejects every body.\<close>

definition rejecting_env :: "(world \<Rightarrow> request \<Rightarrow> response option \<times> error option) \<Rightarrow> env" where
  "rejecting_env transport =
     (example_env transport)\<lparr>json_Decode := (\<lambda>b c. (Some (External ''bad json''), c))\<rparr>"

definition example_json_get :: request where
  "example_json_get = example_get\<lparr>ReqHeader := [(''Accept'', ''application/json'')]\<rparr>"

text \<open>
  An authenticator object with an API key, a cached token \<open>old\<close> and a given expiry, a
  world that holds it at address 0, the request of its token exchange, and a continuation
  that sends nothing and reports the token header it was given.
\<close>

definition example_impl :: "instant \<Rightarrow> identityV2AuthenticatorImpl" where
  "example_impl x =
     \<lparr>username = ''user'', password = ''secret'', apikey = ''key'',
      restClient_BaseUrl = Some \<lparr>raw = ''https://identity'', RawQuery = []\<rparr>,
      restClient_Timeout = 60, token = ''old'', tokenExpiration = x\<rparr>"

definition authenticator_world :: "instant \<Rightarrow> instant \<Rightarrow> world" where
  "authenticator_world t x =
     \<lparr>now = t, trace = [], heap = (\<lambda>a. if a = 0 then Some (example_impl x) else None),
      next_addr = 1\<rparr>"

definition example_token_request :: request where
  "example_token_request =
     \<lparr>Method = ''POST'', URL = \<lparr>raw = ''https://identity/v2.0/tokens'', RawQuery = []\<rparr>,
      ReqHeader = [(''Accept'', ''application/json''), (''Content-Type'', ''application/json'')],
      ReqBody = BufferBody ''apiKeyCredentials user key'', Ctx = (Background, 60)\<rparr>"

definition reporting :: NextCallback where
  "reporting req w =
     (Return (None, None),
      w\<lparr>trace := trace w @ [Logged (Header_Get (ReqHeader req) ''x-auth-token'')]\<rparr>)"





text \<open>The requests of a \<open>POST /ping\<close> with a JSON body and with a text body.\<close>

definition example_post :: "MimeType \<Rightarrow> bytes \<Rightarrow> request" where
  "example_post ct b =
     \<lparr>Method = ''POST'', URL = \<lparr>raw = ''/ping'', RawQuery = []\<rparr>,
      ReqHeader = [(''Content-Type'', ct)], ReqBody = BufferBody b, Ctx = (Background, 60)\<rparr>"

section \<open>Properties of the interceptor chain\<close>

lemma response_path_Panic: "response_path ps (Panic p, w) = (Panic p, w)"
  by (cases ps) auto

lemma response_path_snoc:
  "response_path (ps @ [post]) rw =
     (case response_path ps rw of
        (Panic p, w) \<Rightarrow> (Panic p, w)
      | (Return r, w) \<Rightarrow> (case post r w of (r', w1) \<Rightarrow> (Return (link_return r'), w1)))"
  by (induction ps arbitrary: rw) (auto split: prod.splits outcome.splits simp: response_path_Panic)

lemma doRequest_Cons:
  "doRequest e req (i # rest) w =
     (case i req (\<lambda>newReq. doRequest e newReq rest) w of
        (Panic p, w') \<Rightarrow> (Panic p, w')
      | (Return r, w') \<Rightarrow> (Return (link_return r), w'))"
  by (auto simp: link_return_def split: prod.splits outcome.splits)

lemma doRequest_passing_step:
  "doRequest e req (passing pre post # rest) w =
     (case pre req w of
        (req', w1) \<Rightarrow>
          (case doRequest e req' rest w1 of
             (Panic p, w2) \<Rightarrow> (Panic p, w2)
           | (Return r, w2) \<Rightarrow> (case post r w2 of (r', w3) \<Rightarrow> (Return (link_return r'), w3))))"
  by (auto simp: passing_def link_return_def split: prod.splits outcome.splits)

lemma doRequest_passing:
  "doRequest e req (map (\<lambda>(pre, post). passing pre post) ps) w =
     (case request_path (map fst ps) req w of
        (req', w1) \<Rightarrow>
          response_path (rev (map snd ps))
            (Return (http_Do e w1 req'), w1\<lparr>trace := trace w1 @ [Sent req']\<rparr>))"
proof (induction ps arbitrary: req w)
  case Nil
  show ?case by simp
next
  case (Cons p ps)
  obtain pre post where p: "p = (pre, post)" by (cases p)
  show ?case
    unfolding p list.map prod.case fst_conv snd_conv rev.simps doRequest_passing_step
      request_path.simps response_path_snoc Cons.IH
    by (simp split: prod.splits outcome.splits)
qed

lemma foldl_AddInterceptor: "interceptors (foldl AddInterceptor c its) = interceptors c @ its"
  by (induction its arbitrary: c) (simp_all add: AddInterceptor_def)

text \<open>
  Claim C1.  With no interceptor left, \<open>doRequest\<close> hands the request to the transport and
  returns the transport's result as it is.  With an interceptor at the head, it calls
  that interceptor with the request and a continuation that runs \<open>doRequest\<close> on the rest
  of the list.  \<open>AddInterceptor\<close> appends, so the list is in registration order.  Hence,
  for interceptors that delegate once: their pre-code runs in registration order, then
  the request is sent, then their post-code runs in reverse order, each after every later
  interceptor has returned.
\<close>

theorem C1_chain_nested_order:
  "doRequest e req [] w = (Return (http_Do e w req), w\<lparr>trace := trace w @ [Sent req]\<rparr>)
   \<and> doRequest e req (i # rest) w =
       (case i req (\<lambda>newReq. doRequest e newReq rest) w of
          (Panic p, w') \<Rightarrow> (Panic p, w')
        | (Return r, w') \<Rightarrow> (Return (link_return r), w'))
   \<and> interceptors (foldl AddInterceptor New its) = its
   \<and> doRequest e req (map (\<lambda>(pre, post). passing pre post) ps) w =
       (case request_path (map fst ps) req w of
          (req', w1) \<Rightarrow>
            response_path (rev (map snd ps))
              (Return (http_Do e w1 req'), w1\<lparr>trace := trace w1 @ [Sent req']\<rparr>))"
proof -
  have "interceptors (foldl AddInterceptor New its) = its"
    by (simp add: foldl_AddInterceptor New_def)
  then show ?thesis
    using doRequest_Cons [of e req i rest w] doRequest_passing [of e req ps w] by simp
qed

theorem C1_chain_nested_order_witness:
  "doRequest (example_env (serving 200 None)) example_request
     (interceptors (foldl AddInterceptor New [logging ''1'', logging ''2'', logging ''3'']))
     (example_world 0) =
   (Return (Some (example_response 200 None), None),
    (example_world 0)\<lparr>trace :=
      [Logged ''OUT 1'', Logged ''OUT 2'', Logged ''OUT 3'', Sent example_request,
       Logged ''IN 3'', Logged ''IN 2'', Logged ''IN 1'']\<rparr>)"
proof -
  let ?ps = "[(log_before ''1'', log_after ''1''), (log_before ''2'', log_after ''2''),
              (log_before ''3'', log_after ''3'')]"
  have reg: "interceptors (foldl AddInterceptor New [logging ''1'', logging ''2'', logging ''3''])
      = map (\<lambda>(pre, post). passing pre post) ?ps"
    by (simp add: AddInterceptor_def New_def logging_def)
  note run = C1_chain_nested_order [where e = "example_env (serving 200 None)"
          and req = example_request and w = "example_world 0" and ps = ?ps,
          THEN conjunct2, THEN conjunct2, THEN conjunct2]
  show ?thesis
    unfolding reg run
    by (simp add: example_env_def serving_def example_world_def link_return_def
          log_before_def log_after_def)
qed

section \<open>Properties of an exchange\<close>

lemma ExchangeWithContext_prepare:
  "ExchangeWithContext e c cx meth urlIn query reqIn respOut w =
     (case prepare e c cx meth urlIn query reqIn respOut of
        Inl err \<Rightarrow> ((Return (Some err), respOut), w)
      | Inr req \<Rightarrow>
     (case doRequest e req (interceptors c) w of
        (Panic p, w1) \<Rightarrow> ((Panic p, respOut), w1)
      | (Return (resp, Some err), w1) \<Rightarrow>
          ((Return (Some (Wrap ''failed to send request'' err)), respOut), w1)
      | (Return (None, None), w1) \<Rightarrow>
          ((Panic ''invalid memory address or nil pointer dereference'', respOut), w1)
      | (Return (Some resp, None), w1) \<Rightarrow>
          if StatusCode resp \<ge> 300 then
            (case buildFailedResponseError resp w1 of
               (err, w2) \<Rightarrow> ((Return (Some err), respOut), w2))
          else
            (case (case respOut of
                     None \<Rightarrow> ((None, None), w1)
                   | Some ro \<Rightarrow>
                       (case processResponseContent e ro resp w1 of
                          ((err, ro'), w2) \<Rightarrow> ((err, Some ro'), w2))) of
               ((Some err, respOut'), w2) \<Rightarrow>
                 (case Body_Close (Body resp) w2 of
                    (_, w3) \<Rightarrow> ((Return (Some err), respOut'), w3))
             | ((None, respOut'), w2) \<Rightarrow>
                 (case Body_Close (Body resp) w2 of
                    (Some err, w3) \<Rightarrow>
                      ((Return (Some (Wrap ''failed to close response body'' err)), respOut'), w3)
                  | (None, w3) \<Rightarrow> ((Return None, respOut'), w3)))))"
  unfolding ExchangeWithContext_def prepare_def
  by (simp split: sum.splits)

lemma Exchange_failure_path:
  assumes "prepare e c cx meth urlIn query reqIn respOut = Inr req"
    and "doRequest e req (interceptors c) w = (Return (Some resp, None), w1)"
    and "StatusCode resp \<ge> 300"
  shows "ExchangeWithContext e c cx meth urlIn query reqIn respOut w =
     ((Return (Some (FailedResponseError (StatusCode resp) (Status resp)
         (Some \<lparr>ContentType = Header_Get (Header resp) headerContentType,
                Content = BytesContent (body_data (Body resp))\<rparr>))), respOut),
      w1\<lparr>trace := trace w1 @ [BodyRead (body_id (Body resp)), BodyClosed (body_id (Body resp))]\<rparr>)"
  using assms
  by (simp add: ExchangeWithContext_prepare buildFailedResponseError_def io_Copy_buffer_def
        Body_Close_def)

lemma Exchange_success_path:
  assumes "prepare e c cx meth urlIn query reqIn respOut = Inr req"
    and "doRequest e req (interceptors c) w = (Return (Some resp, None), w1)"
    and "StatusCode resp < 300"
  shows "ExchangeWithContext e c cx meth urlIn query reqIn respOut w =
     (case (case respOut of
              None \<Rightarrow> ((None, None), w1)
            | Some ro \<Rightarrow>
                (case processResponseContent e ro resp w1 of
                   ((err, ro'), w2) \<Rightarrow> ((err, Some ro'), w2))) of
        ((Some err, respOut'), w2) \<Rightarrow>
          ((Return (Some err), respOut'),
           w2\<lparr>trace := trace w2 @ [BodyClosed (body_id (Body resp))]\<rparr>)
      | ((None, respOut'), w2) \<Rightarrow>
          ((Return (case close_err (Body resp) of
                      None \<Rightarrow> None
                    | Some ce \<Rightarrow> Some (Wrap ''failed to close response body'' ce)), respOut'),
           w2\<lparr>trace := trace w2 @ [BodyClosed (body_id (Body resp))]\<rparr>))"
  using assms
  by (simp add: ExchangeWithContext_prepare Body_Close_def split: prod.splits option.splits)

lemma processResponseContent_error_form:
  "processResponseContent e ro resp w = ((Some err, ro'), w2) \<Longrightarrow>
     (\<exists>m x. err = Wrap m x) \<or> (\<exists>m. err = Errorf m)"
  by (auto simp: processResponseContent_def io_Copy_buffer_def io_Copy_stream_def
        split: option.splits if_splits prod.splits)

lemma processResponseContent_trace:
  "processResponseContent e ro resp w = (r, w2) \<Longrightarrow>
     \<exists>evs. w2 = w\<lparr>trace := trace w @ evs\<rparr> \<and> (\<forall>i. BodyClosed i \<notin> set evs) \<and>
       (\<forall>q. Sent q \<notin> set evs)"
proof -
  assume a: "processResponseContent e ro resp w = (r, w2)"
  have w: "w = w\<lparr>trace := trace w @ []\<rparr>" by simp
  from a show ?thesis
    unfolding processResponseContent_def io_Copy_buffer_def io_Copy_stream_def
    by (auto split: option.splits if_splits prod.splits intro: exI [of _ "[]"] w)
qed

lemma prepare_example_get:
  "prepare (example_env t) New None ''GET'' ''/ping'' [] None None = Inr example_get"
  by (simp add: prepare_def buildReqUrl_def buildBodyReader_def buildRequest_def example_env_def
        New_def timeout_def defaultRestClientTimeout_def example_get_def)

lemma doRequest_example_get:
  "doRequest (example_env (serving code cerr)) example_get (interceptors New) (example_world 0) =
     (Return (Some (example_response code cerr), None),
      (example_world 0)\<lparr>trace := [Sent example_get]\<rparr>)"
  by (simp add: New_def example_env_def serving_def example_world_def)

text \<open>
  Claim C3.  When the chain hands back a response and no error, a status code of 300 or
  more makes the exchange a failure: the body is read to its end into a buffer, the body
  is closed, and the error returned is a \<open>FailedResponseError\<close> with the status code, the
  status line and an entity whose content type is the response's Content-Type header and
  whose content is the bytes read.  A status code below 300 (so every code from 200 to
  299) never yields a \<open>FailedResponseError\<close>, and with no response entity and a clean
  close the exchange returns no error.
\<close>

theorem C3_status_threshold:
  assumes "prepare e c cx meth urlIn query reqIn respOut = Inr req"
    and "doRequest e req (interceptors c) w = (Return (Some resp, None), w1)"
  shows "(StatusCode resp \<ge> 300 \<longrightarrow>
            ExchangeWithContext e c cx meth urlIn query reqIn respOut w =
              ((Return (Some (FailedResponseError (StatusCode resp) (Status resp)
                  (Some \<lparr>ContentType = Header_Get (Header resp) headerContentType,
                         Content = BytesContent (body_data (Body resp))\<rparr>))), respOut),
               w1\<lparr>trace := trace w1 @
                  [BodyRead (body_id (Body resp)), BodyClosed (body_id (Body resp))]\<rparr>))
       \<and> (StatusCode resp < 300 \<longrightarrow>
            (\<forall>sc st ent.
               fst (fst (ExchangeWithContext e c cx meth urlIn query reqIn respOut w)) \<noteq>
                 Return (Some (FailedResponseError sc st ent))))
       \<and> (StatusCode resp < 300 \<and> respOut = None \<and> close_err (Body resp) = None \<longrightarrow>
            fst (fst (ExchangeWithContext e c cx meth urlIn query reqIn respOut w)) = Return None)"
proof (intro conjI impI allI)
  assume "StatusCode resp \<ge> 300"
  then show "ExchangeWithContext e c cx meth urlIn query reqIn respOut w =
      ((Return (Some (FailedResponseError (StatusCode resp) (Status resp)
          (Some \<lparr>ContentType = Header_Get (Header resp) headerContentType,
                 Content = BytesContent (body_data (Body resp))\<rparr>))), respOut),
       w1\<lparr>trace := trace w1 @
          [BodyRead (body_id (Body resp)), BodyClosed (body_id (Body resp))]\<rparr>)"
    by (rule Exchange_failure_path [OF assms])
next
  fix sc st ent
  assume lt: "StatusCode resp < 300"
  note run = Exchange_success_path [OF assms lt]
  show "fst (fst (ExchangeWithContext e c cx meth urlIn query reqIn respOut w)) \<noteq>
      Return (Some (FailedResponseError sc st ent))"
  proof (cases respOut)
    case None
    then show ?thesis unfolding run by (simp split: option.splits)
  next
    case (Some ro)
    note ro = this
    obtain err ro' w2 where p: "processResponseContent e ro resp w1 = ((err, ro'), w2)"
      by (metis surj_pair)
    show ?thesis
    proof (cases err)
      case None
      then show ?thesis unfolding run by (simp add: ro p split: option.splits)
    next
      case (Some x)
      with processResponseContent_error_form [of e ro resp w1 x ro' w2] p
      have "(\<exists>m y. x = Wrap m y) \<or> (\<exists>m. x = Errorf m)" by simp
      then show ?thesis unfolding run using Some by (auto simp: ro p)
    qed
  qed
next
  assume a: "StatusCode resp < 300 \<and> respOut = None \<and> close_err (Body resp) = None"
  then have lt: "StatusCode resp < 300" by simp
  show "fst (fst (ExchangeWithContext e c cx meth urlIn query reqIn respOut w)) = Return None"
    unfolding Exchange_success_path [OF assms lt] using a by simp
qed

theorem C3_status_threshold_witness:
  "ExchangeWithContext (example_env (serving 300 None)) New None ''GET'' ''/ping'' [] None None
       (example_world 0) =
     ((Return (Some (FailedResponseError 300 ''status line''
         (Some \<lparr>ContentType = ''text/plain'', Content = BytesContent ''error text''\<rparr>))), None),
      (example_world 0)\<lparr>trace := [Sent example_get, BodyRead 7, BodyClosed 7]\<rparr>)
   \<and> fst (fst (ExchangeWithContext (example_env (serving 299 None)) New None ''GET'' ''/ping'' []
       None None (example_world 0))) = Return None"
proof -
  note fail = C3_status_threshold [OF prepare_example_get doRequest_example_get,
      where code1 = 300 and cerr1 = None, THEN conjunct1]
  note pass = C3_status_threshold [OF prepare_example_get doRequest_example_get,
      where code1 = 299 and cerr1 = None, THEN conjunct2, THEN conjunct2]
  show ?thesis
    using fail pass
    by (simp add: example_response_def example_body_def example_world_def Header_Get_def
          headerContentType_def)
qed

lemma prepare_example_json_get:
  "prepare (rejecting_env t) New None ''GET'' ''/ping'' [] None
     (Some (NewJsonEntity (ValueContent (UserValue ''target'')))) = Inr example_json_get"
  by (simp add: prepare_def buildReqUrl_def buildBodyReader_def buildRequest_def example_env_def
        rejecting_env_def New_def timeout_def defaultRestClientTimeout_def example_get_def
        example_json_get_def NewJsonEntity_def JsonType_def Header_Set_def headerAccept_def)

lemma doRequest_rejecting:
  "doRequest (rejecting_env (serving code cerr)) req (interceptors New) (example_world 0) =
     (Return (Some (example_response code cerr), None),
      (example_world 0)\<lparr>trace := [Sent req]\<rparr>)"
  by (simp add: New_def example_env_def rejecting_env_def serving_def example_world_def)

text \<open>
  Claim C8.  On every path of an exchange that received a response (the chain handed back
  a response and no error), the body of the response is closed, once, as the last effect
  before the exchange returns.  The error of the close is the error of the exchange only
  when nothing failed before: after a failure classification the exchange returns the
  \<open>FailedResponseError\<close>, after an error of processing the response content it returns
  that error, and otherwise it returns the close error wrapped, or no error when the
  close succeeded.
\<close>

theorem C8_body_closed_before_return:
  assumes "prepare e c cx meth urlIn query reqIn respOut = Inr req"
    and "doRequest e req (interceptors c) w = (Return (Some resp, None), w1)"
  shows "(\<exists>evs. trace (snd (ExchangeWithContext e c cx meth urlIn query reqIn respOut w)) =
                  trace w1 @ evs @ [BodyClosed (body_id (Body resp))]
               \<and> (\<forall>i. BodyClosed i \<notin> set evs))
       \<and> (StatusCode resp \<ge> 300 \<longrightarrow>
            fst (fst (ExchangeWithContext e c cx meth urlIn query reqIn respOut w)) =
              Return (Some (FailedResponseError (StatusCode resp) (Status resp)
                (Some \<lparr>ContentType = Header_Get (Header resp) headerContentType,
                       Content = BytesContent (body_data (Body resp))\<rparr>))))
       \<and> (StatusCode resp < 300 \<longrightarrow>
            (\<forall>ro err ro' w2.
               respOut = Some ro \<and> processResponseContent e ro resp w1 = ((Some err, ro'), w2) \<longrightarrow>
               fst (fst (ExchangeWithContext e c cx meth urlIn query reqIn respOut w)) =
                 Return (Some err)))
       \<and> (StatusCode resp < 300 \<longrightarrow>
            (respOut = None \<or>
             (\<exists>ro ro' w2. respOut = Some ro \<and>
                 processResponseContent e ro resp w1 = ((None, ro'), w2))) \<longrightarrow>
            fst (fst (ExchangeWithContext e c cx meth urlIn query reqIn respOut w)) =
              Return (case close_err (Body resp) of
                        None \<Rightarrow> None
                      | Some ce \<Rightarrow> Some (Wrap ''failed to close response body'' ce)))"
proof (intro conjI impI allI)
  show "\<exists>evs. trace (snd (ExchangeWithContext e c cx meth urlIn query reqIn respOut w)) =
                  trace w1 @ evs @ [BodyClosed (body_id (Body resp))]
               \<and> (\<forall>i. BodyClosed i \<notin> set evs)"
  proof (cases "StatusCode resp \<ge> 300")
    case True
    show ?thesis
      unfolding Exchange_failure_path [OF assms True]
      by (intro exI [of _ "[BodyRead (body_id (Body resp))]"]) simp
  next
    case False
    then have lt: "StatusCode resp < 300" by simp
    show ?thesis
    proof (cases respOut)
      case None
      show ?thesis
        unfolding Exchange_success_path [OF assms lt]
        by (intro exI [of _ "[]"]) (simp add: None)
    next
      case (Some ro)
      note ro = this
      obtain r w2 where p: "processResponseContent e ro resp w1 = (r, w2)"
        by (metis surj_pair)
      from processResponseContent_trace [OF p]
      obtain evs where evs: "w2 = w1\<lparr>trace := trace w1 @ evs\<rparr>" "\<forall>i. BodyClosed i \<notin> set evs"
        by blast
      show ?thesis
        unfolding Exchange_success_path [OF assms lt]
        using evs
        by (intro exI [of _ evs]) (auto simp: ro p split: prod.splits option.splits)
    qed
  qed
next
  assume "StatusCode resp \<ge> 300"
  then show "fst (fst (ExchangeWithContext e c cx meth urlIn query reqIn respOut w)) =
      Return (Some (FailedResponseError (StatusCode resp) (Status resp)
        (Some \<lparr>ContentType = Header_Get (Header resp) headerContentType,
               Content = BytesContent (body_data (Body resp))\<rparr>)))"
    by (simp add: Exchange_failure_path [OF assms])
next
  fix ro err ro' w2
  assume lt: "StatusCode resp < 300"
    and a: "respOut = Some ro \<and> processResponseContent e ro resp w1 = ((Some err, ro'), w2)"
  show "fst (fst (ExchangeWithContext e c cx meth urlIn query reqIn respOut w)) = Return (Some err)"
    unfolding Exchange_success_path [OF assms lt] using a by simp
next
  assume lt: "StatusCode resp < 300"
    and a: "respOut = None \<or>
      (\<exists>ro ro' w2. respOut = Some ro \<and> processResponseContent e ro resp w1 = ((None, ro'), w2))"
  show "fst (fst (ExchangeWithContext e c cx meth urlIn query reqIn respOut w)) =
      Return (case close_err (Body resp) of
                None \<Rightarrow> None
              | Some ce \<Rightarrow> Some (Wrap ''failed to close response body'' ce))"
    unfolding Exchange_success_path [OF assms lt] using a by auto
qed

theorem C8_body_closed_before_return_witness:
  "fst (fst (ExchangeWithContext (example_env (serving 500 (Some (External ''close failed''))))
       New None ''GET'' ''/ping'' [] None None (example_world 0))) =
     Return (Some (FailedResponseError 500 ''status line''
       (Some \<lparr>ContentType = ''text/plain'', Content = BytesContent ''error text''\<rparr>)))
   \<and> fst (fst (ExchangeWithContext (example_env (serving 200 (Some (External ''close failed''))))
       New None ''GET'' ''/ping'' [] None None (example_world 0))) =
     Return (Some (Wrap ''failed to close response body'' (External ''close failed'')))
   \<and> fst (fst (ExchangeWithContext (rejecting_env (serving 200 (Some (External ''close failed''))))
       New None ''GET'' ''/ping'' [] None
       (Some (NewJsonEntity (ValueContent (UserValue ''target'')))) (example_world 0))) =
     Return (Some (Wrap ''failed to decode response'' (External ''bad json'')))
   \<and> last (trace (snd (ExchangeWithContext
       (rejecting_env (serving 200 (Some (External ''close failed''))))
       New None ''GET'' ''/ping'' [] None
       (Some (NewJsonEntity (ValueContent (UserValue ''target'')))) (example_world 0)))) =
     BodyClosed 7"
proof -
  note failed = C8_body_closed_before_return [OF prepare_example_get doRequest_example_get,
      where code1 = 500 and cerr1 = "Some (External ''close failed'')"]
  note clean = C8_body_closed_before_return [OF prepare_example_get doRequest_example_get,
      where code1 = 200 and cerr1 = "Some (External ''close failed'')"]
  note decode = C8_body_closed_before_return [OF prepare_example_json_get doRequest_rejecting,
      where code1 = 200 and cerr1 = "Some (External ''close failed'')"]
  have p: "processResponseContent (rejecting_env (serving 200 (Some (External ''close failed''))))
        (NewJsonEntity (ValueContent (UserValue ''target'')))
        (example_response 200 (Some (External ''close failed'')))
        ((example_world 0)\<lparr>trace := [Sent example_json_get]\<rparr>) =
      ((Some (Wrap ''failed to decode response'' (External ''bad json'')),
        NewJsonEntity (ValueContent (UserValue ''target''))),
       (example_world 0)\<lparr>trace := [Sent example_json_get, BodyRead 7]\<rparr>)"
    by (simp add: processResponseContent_def NewJsonEntity_def rejecting_env_def example_env_def
          example_response_def example_body_def example_world_def)
  have a: "fst (fst (ExchangeWithContext (example_env (serving 500 (Some (External ''close failed''))))
       New None ''GET'' ''/ping'' [] None None (example_world 0))) =
     Return (Some (FailedResponseError 500 ''status line''
       (Some \<lparr>ContentType = ''text/plain'', Content = BytesContent ''error text''\<rparr>)))"
    using failed [THEN conjunct2, THEN conjunct1]
    by (simp add: example_response_def example_body_def Header_Get_def headerContentType_def)
  have b: "fst (fst (ExchangeWithContext (example_env (serving 200 (Some (External ''close failed''))))
       New None ''GET'' ''/ping'' [] None None (example_world 0))) =
     Return (Some (Wrap ''failed to close response body'' (External ''close failed'')))"
    using clean [THEN conjunct2, THEN conjunct2, THEN conjunct2]
    by (simp add: example_response_def example_body_def)
  have c: "fst (fst (ExchangeWithContext (rejecting_env (serving 200 (Some (External ''close failed''))))
       New None ''GET'' ''/ping'' [] None
       (Some (NewJsonEntity (ValueContent (UserValue ''target'')))) (example_world 0))) =
     Return (Some (Wrap ''failed to decode response'' (External ''bad json'')))"
    using decode [THEN conjunct2, THEN conjunct2, THEN conjunct1] p
    by (simp add: example_response_def)
  have d: "last (trace (snd (ExchangeWithContext
       (rejecting_env (serving 200 (Some (External ''close failed''))))
       New None ''GET'' ''/ping'' [] None
       (Some (NewJsonEntity (ValueContent (UserValue ''target'')))) (example_world 0)))) =
     BodyClosed 7"
    using decode [THEN conjunct1]
    by (auto simp: example_response_def example_body_def)
  from a b c d show ?thesis by simp
qed

lemma Exchange_no_interceptors_world:
  assumes "interceptors c = []"
  shows "case prepare e c cx meth urlIn query reqIn respOut of
           Inl err \<Rightarrow> snd (ExchangeWithContext e c cx meth urlIn query reqIn respOut w) = w
         | Inr req \<Rightarrow>
             (\<exists>evs. snd (ExchangeWithContext e c cx meth urlIn query reqIn respOut w) =
                      w\<lparr>trace := trace w @ Sent req # evs\<rparr> \<and> (\<forall>q. Sent q \<notin> set evs))"
proof (cases "prepare e c cx meth urlIn query reqIn respOut")
  case (Inl err)
  then show ?thesis by (simp add: ExchangeWithContext_prepare)
next
  case (Inr req)
  let ?w1 = "w\<lparr>trace := trace w @ [Sent req]\<rparr>"
  have send: "doRequest e req (interceptors c) w = (Return (http_Do e w req), ?w1)"
    by (simp add: assms)
  obtain resp err where d: "http_Do e w req = (resp, err)" by (cases "http_Do e w req")
  have "\<exists>evs. snd (ExchangeWithContext e c cx meth urlIn query reqIn respOut w) =
                      w\<lparr>trace := trace w @ Sent req # evs\<rparr> \<and> (\<forall>q. Sent q \<notin> set evs)"
  proof (cases err)
    case (Some x)
    then show ?thesis
      by (intro exI [of _ "[]"])
         (simp add: ExchangeWithContext_prepare Inr send d split: option.splits)
  next
    case None
    note noerr = this
    show ?thesis
    proof (cases resp)
      case None
      then show ?thesis
        by (intro exI [of _ "[]"]) (simp add: ExchangeWithContext_prepare Inr send d noerr)
    next
      case (Some r)
      have s2: "doRequest e req (interceptors c) w = (Return (Some r, None), ?w1)"
        by (simp add: send d noerr Some)
      show ?thesis
      proof (cases "StatusCode r \<ge> 300")
        case True
        show ?thesis
          unfolding Exchange_failure_path [OF Inr s2 True]
          by (intro exI [of _ "[BodyRead (body_id (Body r)), BodyClosed (body_id (Body r))]"])
             simp
      next
        case False
        then have lt: "StatusCode r < 300" by simp
        show ?thesis
        proof (cases respOut)
          case None
          show ?thesis
            unfolding Exchange_success_path [OF Inr s2 lt]
            by (intro exI [of _ "[BodyClosed (body_id (Body r))]"]) (simp add: None)
        next
          case (Some ro)
          note ro = this
          obtain pr w2 where p: "processResponseContent e ro r ?w1 = (pr, w2)"
            by (metis surj_pair)
          from processResponseContent_trace [OF p]
          obtain evs where evs: "w2 = ?w1\<lparr>trace := trace ?w1 @ evs\<rparr>" "\<forall>q. Sent q \<notin> set evs"
            by blast
          show ?thesis
            unfolding Exchange_success_path [OF Inr s2 lt]
            using evs
            by (intro exI [of _ "evs @ [BodyClosed (body_id (Body r))]"])
               (auto simp: ro p split: prod.splits option.splits)
        qed
      qed
    qed
  qed
  then show ?thesis by (simp add: Inr)
qed

lemma prepare_ReqBody:
  "prepare e c cx meth urlIn query reqIn respOut = Inr req \<Longrightarrow>
     buildBodyReader e reqIn = Inr (ReqBody req)"
  by (auto simp: prepare_def buildRequest_def Let_def split: sum.splits option.splits if_splits)

lemma prepare_built:
  assumes "buildReqUrl e c urlIn query = Inr reqUrl"
    and "buildBodyReader e reqIn = Inr b"
    and "http_NewRequest e meth reqUrl = None"
  shows "\<exists>req. prepare e c cx meth urlIn query reqIn respOut = Inr req \<and> ReqBody req = b \<and>
           Method req = meth \<and> URL req = reqUrl"
  using assms
  by (auto simp: prepare_def buildRequest_def Let_def split: option.splits)

lemma ExchangeWithContext_conclude:
  "ExchangeWithContext e c cx meth urlIn query reqIn respOut w =
     (case prepare e c cx meth urlIn query reqIn respOut of
        Inl err \<Rightarrow> ((Return (Some err), respOut), w)
      | Inr req \<Rightarrow> conclude e respOut (doRequest e req (interceptors c) w))"
  unfolding ExchangeWithContext_def prepare_def conclude_def
  by (simp split: sum.splits)

section \<open>Short circuits and errors in the chain\<close>









section \<open>The request body\<close>

lemma Exchange_body_error:
  assumes "buildReqUrl e c urlIn query = Inr reqUrl"
    and "buildBodyReader e reqIn = Inl err"
  shows "ExchangeWithContext e c cx meth urlIn query reqIn respOut w =
     ((Return (Some err), respOut), w)"
  using assms by (simp add: ExchangeWithContext_def)

lemma Exchange_body_sent:
  assumes "buildReqUrl e c urlIn query = Inr reqUrl"
    and "buildBodyReader e reqIn = Inr b"
    and "http_NewRequest e meth reqUrl = None"
  shows "\<exists>req. prepare e c cx meth urlIn query reqIn respOut = Inr req \<and> ReqBody req = b \<and>
           Method req = meth \<and> URL req = reqUrl \<and>
           ExchangeWithContext e c cx meth urlIn query reqIn respOut w =
             conclude e respOut (doRequest e req (interceptors c) w) \<and>
           (interceptors c = [] \<longrightarrow>
              (\<exists>evs. snd (ExchangeWithContext e c cx meth urlIn query reqIn respOut w) =
                       w\<lparr>trace := trace w @ Sent req # evs\<rparr> \<and> (\<forall>q. Sent q \<notin> set evs)))"
proof -
  from prepare_built [OF assms, of cx respOut]
  obtain req where req: "prepare e c cx meth urlIn query reqIn respOut = Inr req"
    "ReqBody req = b" "Method req = meth" "URL req = reqUrl"
    by blast
  have "interceptors c = [] \<longrightarrow>
      (\<exists>evs. snd (ExchangeWithContext e c cx meth urlIn query reqIn respOut w) =
               w\<lparr>trace := trace w @ Sent req # evs\<rparr> \<and> (\<forall>q. Sent q \<notin> set evs))"
  proof
    assume "interceptors c = []"
    from Exchange_no_interceptors_world [OF this, of e cx meth urlIn query reqIn respOut w]
    show "\<exists>evs. snd (ExchangeWithContext e c cx meth urlIn query reqIn respOut w) =
               w\<lparr>trace := trace w @ Sent req # evs\<rparr> \<and> (\<forall>q. Sent q \<notin> set evs)"
      by (simp add: req(1))
  qed
  moreover have "ExchangeWithContext e c cx meth urlIn query reqIn respOut w =
      conclude e respOut (doRequest e req (interceptors c) w)"
    by (simp add: ExchangeWithContext_conclude req(1))
  ultimately show ?thesis using req by blast
qed


lemma buildReqUrl_example:
  "buildReqUrl (example_env t) New ''/ping'' [] = Inr \<lparr>raw = ''/ping'', RawQuery = []\<rparr>"
  by (simp add: buildReqUrl_def example_env_def New_def)




text \<open>
  Claim C9, as the code has it.  A request entity whose content type is JSON and whose
  content is the nil interface value is an unsupported combination: the exchange (its URL
  built) returns that error and sends nothing.  A nil pointer as content is not the nil
  interface value: like every other value that is neither a string, a byte slice nor a
  readable stream it is handed to the JSON encoder; what the encoder wrote for it is the
  body of the request on which the exchange runs its chain (the URL built, the request
  set up), and with no interceptor that request is the one sent.  The JSON encoder is
  consulted only for content that is not the nil interface value and has none of those
  three shapes: for the nil interface value and for those shapes the body does not depend
  on the encoder.
\<close>

theorem C9_nil_json_content_unsupported:
  "buildBodyReader e (Some \<lparr>ContentType = JsonType, Content = NilContent\<rparr>) =
     Inl (Errorf ''unsupported combination of request content and type'')
   \<and> (buildReqUrl e c urlIn query = Inr reqUrl \<longrightarrow>
        ExchangeWithContext e c cx meth urlIn query
            (Some \<lparr>ContentType = JsonType, Content = NilContent\<rparr>) respOut w =
          ((Return (Some (Errorf ''unsupported combination of request content and type'')),
            respOut), w))
   \<and> (x = NilContent \<or> as_string x \<noteq> None \<or> as_bytes x \<noteq> None \<or> as_Reader x \<noteq> None \<longrightarrow>
        buildBodyReader (e\<lparr>json_Encode := enc\<rparr>) (Some \<lparr>ContentType = ct, Content = x\<rparr>) =
          buildBodyReader e (Some \<lparr>ContentType = ct, Content = x\<rparr>))
   \<and> (x \<noteq> NilContent \<and> as_string x = None \<and> as_bytes x = None \<and> as_Reader x = None \<longrightarrow>
        buildBodyReader e (Some \<lparr>ContentType = JsonType, Content = x\<rparr>) =
          (case json_Encode e x of
             Inl err \<Rightarrow> Inl (Wrap ''failed to encode body'' err)
           | Inr buffer \<Rightarrow> Inr (BufferBody buffer)))
   \<and> (buildReqUrl e c urlIn query = Inr reqUrl \<and>
       json_Encode e (ValueContent NilPointer) = Inr buffer \<and>
       http_NewRequest e meth reqUrl = None \<longrightarrow>
        (\<exists>req. ReqBody req = BufferBody buffer \<and>
           ExchangeWithContext e c cx meth urlIn query
               (Some \<lparr>ContentType = JsonType, Content = ValueContent NilPointer\<rparr>) respOut w =
             conclude e respOut (doRequest e req (interceptors c) w) \<and>
           (interceptors c = [] \<longrightarrow>
              (\<exists>evs. snd (ExchangeWithContext e c cx meth urlIn query
                        (Some \<lparr>ContentType = JsonType, Content = ValueContent NilPointer\<rparr>)
                        respOut w) =
                       w\<lparr>trace := trace w @ Sent req # evs\<rparr> \<and> (\<forall>q. Sent q \<notin> set evs)))))"
proof -
  have nil: "buildBodyReader e (Some \<lparr>ContentType = JsonType, Content = NilContent\<rparr>) =
     Inl (Errorf ''unsupported combination of request content and type'')"
    by (simp add: buildBodyReader_def)
  have only: "x = NilContent \<or> as_string x \<noteq> None \<or> as_bytes x \<noteq> None \<or> as_Reader x \<noteq> None \<longrightarrow>
        buildBodyReader (e\<lparr>json_Encode := enc\<rparr>) (Some \<lparr>ContentType = ct, Content = x\<rparr>) =
          buildBodyReader e (Some \<lparr>ContentType = ct, Content = x\<rparr>)"
    by (cases x) (auto simp: buildBodyReader_def)
  have enc: "x \<noteq> NilContent \<and> as_string x = None \<and> as_bytes x = None \<and> as_Reader x = None \<longrightarrow>
        buildBodyReader e (Some \<lparr>ContentType = JsonType, Content = x\<rparr>) =
          (case json_Encode e x of
             Inl err \<Rightarrow> Inl (Wrap ''failed to encode body'' err)
           | Inr buffer \<Rightarrow> Inr (BufferBody buffer))"
    by (simp add: buildBodyReader_def)
  have pointer: "buildReqUrl e c urlIn query = Inr reqUrl \<and>
       json_Encode e (ValueContent NilPointer) = Inr buffer \<and>
       http_NewRequest e meth reqUrl = None \<longrightarrow>
        (\<exists>req. ReqBody req = BufferBody buffer \<and>
           ExchangeWithContext e c cx meth urlIn query
               (Some \<lparr>ContentType = JsonType, Content = ValueContent NilPointer\<rparr>) respOut w =
             conclude e respOut (doRequest e req (interceptors c) w) \<and>
           (interceptors c = [] \<longrightarrow>
              (\<exists>evs. snd (ExchangeWithContext e c cx meth urlIn query
                        (Some \<lparr>ContentType = JsonType, Content = ValueContent NilPointer\<rparr>)
                        respOut w) =
                       w\<lparr>trace := trace w @ Sent req # evs\<rparr> \<and> (\<forall>q. Sent q \<notin> set evs))))"
  proof
    assume a: "buildReqUrl e c urlIn query = Inr reqUrl \<and>
       json_Encode e (ValueContent NilPointer) = Inr buffer \<and>
       http_NewRequest e meth reqUrl = None"
    then have b: "buildBodyReader e
        (Some \<lparr>ContentType = JsonType, Content = ValueContent NilPointer\<rparr>) =
        Inr (BufferBody buffer)"
      by (simp add: buildBodyReader_def)
    from a have u: "buildReqUrl e c urlIn query = Inr reqUrl"
      and n: "http_NewRequest e meth reqUrl = None"
      by simp_all
    from Exchange_body_sent [OF u b n, of cx respOut w]
    show "\<exists>req. ReqBody req = BufferBody buffer \<and>
           ExchangeWithContext e c cx meth urlIn query
               (Some \<lparr>ContentType = JsonType, Content = ValueContent NilPointer\<rparr>) respOut w =
             conclude e respOut (doRequest e req (interceptors c) w) \<and>
           (interceptors c = [] \<longrightarrow>
              (\<exists>evs. snd (ExchangeWithContext e c cx meth urlIn query
                        (Some \<lparr>ContentType = JsonType, Content = ValueContent NilPointer\<rparr>)
                        respOut w) =
                       w\<lparr>trace := trace w @ Sent req # evs\<rparr> \<and> (\<forall>q. Sent q \<notin> set evs)))"
      by blast
  qed
  from nil only enc pointer show ?thesis
    by (simp add: Exchange_body_error)
qed

theorem C9_nil_json_content_unsupported_witness:
  "ExchangeWithContext (example_env (serving 200 None)) New None ''POST'' ''/ping'' []
       (Some (NewJsonEntity NilContent)) None (example_world 0) =
     ((Return (Some (Errorf ''unsupported combination of request content and type'')), None),
      example_world 0)
   \<and> buildBodyReader ((example_env (serving 200 None))\<lparr>json_Encode := (\<lambda>x. Inr ''null'')\<rparr>)
       (Some \<lparr>ContentType = JsonType, Content = NilContent\<rparr>) =
     buildBodyReader (example_env (serving 200 None))
       (Some \<lparr>ContentType = JsonType, Content = NilContent\<rparr>)
   \<and> buildBodyReader (example_env (serving 200 None))
       (Some \<lparr>ContentType = JsonType, Content = ValueContent (UserValue ''hello'')\<rparr>) =
     Inr (BufferBody ''{}'')
   \<and> (\<exists>req evs.
         snd (ExchangeWithContext (example_env (serving 200 None)) New None ''POST'' ''/ping'' []
                (Some \<lparr>ContentType = JsonType, Content = ValueContent NilPointer\<rparr>) None
                (example_world 0)) =
           (example_world 0)\<lparr>trace := Sent req # evs\<rparr> \<and>
         ReqBody req = BufferBody (''null'' @ [CHR 0x0A]))"
proof -
  let ?e = "example_env (serving 200 None)"
  note inst = C9_nil_json_content_unsupported [where e = ?e
      and c = New and urlIn = "''/ping''" and query = "[]"
      and reqUrl = "\<lparr>raw = ''/ping'', RawQuery = []\<rparr>"
      and cx = None and meth = "''POST''" and respOut = None and w = "example_world 0"
      and ct = JsonType and enc = "\<lambda>x. Inr ''null''" and buffer = "''null'' @ [CHR 0x0A]"]
  note u = buildReqUrl_example [of "serving 200 None"]
  have a: "ExchangeWithContext ?e New None ''POST'' ''/ping'' []
       (Some (NewJsonEntity NilContent)) None (example_world 0) =
     ((Return (Some (Errorf ''unsupported combination of request content and type'')), None),
      example_world 0)"
    using inst [THEN conjunct2, THEN conjunct1] u by (simp add: NewJsonEntity_def)
  have b: "buildBodyReader (?e\<lparr>json_Encode := (\<lambda>x. Inr ''null'')\<rparr>)
       (Some \<lparr>ContentType = JsonType, Content = NilContent\<rparr>) =
     buildBodyReader ?e (Some \<lparr>ContentType = JsonType, Content = NilContent\<rparr>)"
    using inst [where x = NilContent, THEN conjunct2, THEN conjunct2, THEN conjunct1] by blast
  have c: "buildBodyReader ?e
       (Some \<lparr>ContentType = JsonType, Content = ValueContent (UserValue ''hello'')\<rparr>) =
     Inr (BufferBody ''{}'')"
    using inst [where x = "ValueContent (UserValue ''hello'')", THEN conjunct2, THEN conjunct2,
        THEN conjunct2, THEN conjunct1]
    by (simp add: example_env_def example_encode_def)
  have enc: "json_Encode ?e (ValueContent NilPointer) = Inr (''null'' @ [CHR 0x0A])"
    by (simp add: example_env_def example_encode_def)
  have new: "http_NewRequest ?e ''POST'' \<lparr>raw = ''/ping'', RawQuery = []\<rparr> = None"
    by (simp add: example_env_def)
  have empty: "interceptors New = []" by (simp add: New_def)
  from inst [THEN conjunct2, THEN conjunct2, THEN conjunct2, THEN conjunct2] u enc new empty
  have d: "\<exists>req evs.
         snd (ExchangeWithContext ?e New None ''POST'' ''/ping'' []
                (Some \<lparr>ContentType = JsonType, Content = ValueContent NilPointer\<rparr>) None
                (example_world 0)) =
           (example_world 0)\<lparr>trace := Sent req # evs\<rparr> \<and>
         ReqBody req = BufferBody (''null'' @ [CHR 0x0A])"
    by (auto simp: example_world_def)
  from a b c d show ?thesis by simp
qed

theorem C9_nil_pointer_sent_as_null_counterexample:
  "fst (fst (ExchangeWithContext (example_env (serving 200 None)) New None ''POST'' ''/ping'' []
       (Some (NewJsonEntity (ValueContent NilPointer))) None (example_world 0))) \<noteq>
     Return (Some (Errorf ''unsupported combination of request content and type''))
   \<and> trace (snd (ExchangeWithContext (example_env (serving 200 None)) New None ''POST'' ''/ping'' []
       (Some (NewJsonEntity (ValueContent NilPointer))) None (example_world 0))) =
     [Sent (example_post ''application/json'' (''null'' @ [CHR 0x0A])), BodyClosed 7]"
  by (simp add: ExchangeWithContext_def buildReqUrl_def buildBodyReader_def buildRequest_def
        example_env_def example_encode_def New_def timeout_def NewJsonEntity_def
        defaultRestClientTimeout_def JsonType_def Header_Set_def
        headerContentType_def serving_def example_response_def example_body_def Body_Close_def
        example_world_def example_post_def)

section \<open>Properties of the authenticator\<close>

lemma token_exchange_sent:
  "case prepare e (restClient impl) None ''POST'' ''/v2.0/tokens'' []
          (Some (NewJsonEntity (ValueContent (credentials impl))))
          (Some (NewJsonEntity (ValueContent (IdentityAuthResp [] 0)))) of
     Inl err \<Rightarrow> snd (token_exchange e impl w) = w
   | Inr req \<Rightarrow>
       (\<exists>evs. snd (token_exchange e impl w) = w\<lparr>trace := trace w @ Sent req # evs\<rparr> \<and>
          (\<forall>q. Sent q \<notin> set evs))"
  unfolding token_exchange_def Exchange_def
  by (rule Exchange_no_interceptors_world) (simp add: restClient_def)

lemma token_exchange_heap:
  "token_exchange e impl w = (r, w1) \<Longrightarrow> heap w1 = heap w \<and> now w1 = now w"
  using token_exchange_sent [of e impl w] by (auto split: sum.splits)

lemma update_impl_heap:
  "heap w1 = heap w \<Longrightarrow> heap w a = Some impl \<Longrightarrow>
     update_impl a f w1 = w1\<lparr>heap := (heap w)(a \<mapsto> f impl)\<rparr>"
  by (auto simp: update_impl_def fun_eq_iff intro!: world.equality)

lemma intercept_valid:
  assumes "heap w a = Some impl" and "now w \<le> tokenExpiration impl"
  shows "intercept e a req next w =
     next (req\<lparr>ReqHeader := Header_Set (ReqHeader req) ''x-auth-token'' (token impl)\<rparr>) w"
  using assms by (simp add: intercept_def After_def)

lemma intercept_expired:
  assumes "heap w a = Some impl" and "now w > tokenExpiration impl"
  shows "intercept e a req next w =
     (case token_exchange e impl w of
        ((Panic p, ro), w1) \<Rightarrow> (Panic p, w1)
      | ((Return (Some err), ro), w1) \<Rightarrow>
          (Return (None, Some (Wrap ''failed to issue token request'' err)), w1)
      | ((Return None, ro), w1) \<Rightarrow>
          next (req\<lparr>ReqHeader := Header_Set (ReqHeader req) ''x-auth-token''
                      (fst (decoded_token ro))\<rparr>)
            (w1\<lparr>heap := (heap w)(a \<mapsto> impl\<lparr>token := fst (decoded_token ro),
                                           tokenExpiration := snd (decoded_token ro)\<rparr>)\<rparr>))"
proof -
  obtain out ro w1 where t: "token_exchange e impl w = ((out, ro), w1)"
    by (metis surj_pair)
  from token_exchange_heap [OF t] have h: "heap w1 = heap w" by simp
  show ?thesis
  proof (cases out)
    case (Panic p)
    with assms t show ?thesis by (simp add: intercept_def After_def authenticate_def)
  next
    case (Return r)
    show ?thesis
    proof (cases r)
      case (Some err)
      with assms t Return show ?thesis by (simp add: intercept_def After_def authenticate_def)
    next
      case None
      with assms t Return show ?thesis
        by (simp add: intercept_def After_def authenticate_def update_impl_heap [OF h assms(1)])
    qed
  qed
qed

lemma token_exchange_example:
  "token_exchange (example_env (serving 200 None)) (example_impl x) (authenticator_world t x) =
     ((Return None, Some (NewJsonEntity (ValueContent (IdentityAuthResp ''tok'' 1000)))),
      (authenticator_world t x)\<lparr>trace := [Sent example_token_request, BodyRead 7, BodyClosed 7]\<rparr>)"
  by (simp add: token_exchange_def Exchange_def ExchangeWithContext_def buildReqUrl_def
        buildBodyReader_def buildRequest_def processResponseContent_def Body_Close_def
        restClient_def example_impl_def example_env_def serving_def NewJsonEntity_def
        JsonType_def timeout_def Header_Set_def headerAccept_def headerContentType_def
        example_token_request_def example_response_def example_body_def
        authenticator_world_def credentials_def example_encode_def)

text \<open>
  Claim C2, as the code has it.  An intercepted call performs the authentication
  sub-exchange exactly when the current time is strictly after the cached expiry
  (\<open>time.Now().After\<close>): up to and including the instant of expiry the call goes straight
  to \<open>next\<close> with the cached token, in the world as it was; after it, one token exchange
  runs first, which sends exactly one request when its request could be built, and the
  outer request proceeds only after it succeeded.  A new authenticator has the zero
  instant as expiry and no token, so any later time refreshes.
\<close>

theorem C2_refresh_after_expiry:
  assumes "heap w a = Some impl"
  shows "(now w \<le> tokenExpiration impl \<longrightarrow>
            intercept e a req nxt w =
              nxt (req\<lparr>ReqHeader := Header_Set (ReqHeader req) ''x-auth-token'' (token impl)\<rparr>) w)
       \<and> (now w > tokenExpiration impl \<longrightarrow>
            intercept e a req nxt w =
              (case token_exchange e impl w of
                 ((Panic p, ro), w1) \<Rightarrow> (Panic p, w1)
               | ((Return (Some err), ro), w1) \<Rightarrow>
                   (Return (None, Some (Wrap ''failed to issue token request'' err)), w1)
               | ((Return None, ro), w1) \<Rightarrow>
                   nxt (req\<lparr>ReqHeader := Header_Set (ReqHeader req) ''x-auth-token''
                               (fst (decoded_token ro))\<rparr>)
                     (w1\<lparr>heap := (heap w)(a \<mapsto> impl\<lparr>token := fst (decoded_token ro),
                                   tokenExpiration := snd (decoded_token ro)\<rparr>)\<rparr>)))
       \<and> (\<forall>treq. prepare e (restClient impl) None ''POST'' ''/v2.0/tokens'' []
              (Some (NewJsonEntity (ValueContent (credentials impl))))
              (Some (NewJsonEntity (ValueContent (IdentityAuthResp [] 0)))) = Inr treq \<longrightarrow>
            (\<exists>evs. snd (token_exchange e impl w) = w\<lparr>trace := trace w @ Sent treq # evs\<rparr> \<and>
               (\<forall>q. Sent q \<notin> set evs)))
       \<and> (\<forall>identityUrl u p k w0 i.
            IdentityV2Authenticator e identityUrl u p k w0 = (Inr i, w) \<and> a = next_addr w0 \<longrightarrow>
            i = intercept e a \<and> token impl = [] \<and> tokenExpiration impl = 0)"
proof (intro conjI impI allI)
  assume "now w \<le> tokenExpiration impl"
  then show "intercept e a req nxt w =
      nxt (req\<lparr>ReqHeader := Header_Set (ReqHeader req) ''x-auth-token'' (token impl)\<rparr>) w"
    by (rule intercept_valid [OF assms])
next
  assume "now w > tokenExpiration impl"
  then show "intercept e a req nxt w =
      (case token_exchange e impl w of
         ((Panic p, ro), w1) \<Rightarrow> (Panic p, w1)
       | ((Return (Some err), ro), w1) \<Rightarrow>
           (Return (None, Some (Wrap ''failed to issue token request'' err)), w1)
       | ((Return None, ro), w1) \<Rightarrow>
           nxt (req\<lparr>ReqHeader := Header_Set (ReqHeader req) ''x-auth-token''
                       (fst (decoded_token ro))\<rparr>)
             (w1\<lparr>heap := (heap w)(a \<mapsto> impl\<lparr>token := fst (decoded_token ro),
                           tokenExpiration := snd (decoded_token ro)\<rparr>)\<rparr>))"
    by (rule intercept_expired [OF assms])
next
  fix treq
  assume "prepare e (restClient impl) None ''POST'' ''/v2.0/tokens'' []
              (Some (NewJsonEntity (ValueContent (credentials impl))))
              (Some (NewJsonEntity (ValueContent (IdentityAuthResp [] 0)))) = Inr treq"
  with token_exchange_sent [of e impl w]
  show "\<exists>evs. snd (token_exchange e impl w) = w\<lparr>trace := trace w @ Sent treq # evs\<rparr> \<and>
               (\<forall>q. Sent q \<notin> set evs)"
    by simp
next
  fix identityUrl u p k w0 i
  assume c: "IdentityV2Authenticator e identityUrl u p k w0 = (Inr i, w) \<and> a = next_addr w0"
  then have "i = intercept e a \<and> heap w a = Some \<lparr>username = u, password = p, apikey = k,
      restClient_BaseUrl = BaseUrl (snd (SetBaseUrl e New identityUrl)),
      restClient_Timeout = authTimeout, token = [], tokenExpiration = 0\<rparr>"
    by (auto simp: IdentityV2Authenticator_def split: if_splits prod.splits option.splits)
  with assms show "i = intercept e a" "token impl = []" "tokenExpiration impl = 0" by auto
qed


lemma heap_authenticator_world: "heap (authenticator_world t x) 0 = Some (example_impl x)"
  by (simp add: authenticator_world_def)

lemma trace_authenticator_world: "trace (authenticator_world t x) = []"
  by (simp add: authenticator_world_def)

lemma intercept_first_call_example:
  "intercept (example_env (serving 200 None)) 0 example_get reporting (authenticator_world 500 0) =
     (Return (None, None),
      (authenticator_world 500 0)
        \<lparr>trace := [Sent example_token_request, BodyRead 7, BodyClosed 7, Logged ''tok''],
         heap := (heap (authenticator_world 500 0))
                   (0 \<mapsto> (example_impl 0)\<lparr>token := ''tok'', tokenExpiration := 1000\<rparr>)\<rparr>)"
proof -
  have late: "now (authenticator_world 500 0) > tokenExpiration (example_impl 0)"
    by (simp add: authenticator_world_def example_impl_def)
  show ?thesis
    by (simp add: intercept_expired [OF heap_authenticator_world late] token_exchange_example
          decoded_token_def NewJsonEntity_def reporting_def Header_Set_def Header_Get_def
          trace_authenticator_world)
qed

theorem C2_refresh_after_expiry_witness:
  "intercept (example_env (serving 200 None)) 0 example_get reporting (authenticator_world 999 1000) =
     (Return (None, None), (authenticator_world 999 1000)\<lparr>trace := [Logged ''old'']\<rparr>)
   \<and> trace (snd (intercept (example_env (serving 200 None)) 0 example_get reporting
        (authenticator_world 1001 1000))) =
     [Sent example_token_request, BodyRead 7, BodyClosed 7, Logged ''tok'']
   \<and> trace (snd (intercept (example_env (serving 200 None)) 0 example_get reporting
        (snd (intercept (example_env (serving 200 None)) 0 example_get reporting
           (authenticator_world 500 0))))) =
     [Sent example_token_request, BodyRead 7, BodyClosed 7, Logged ''tok'', Logged ''tok'']"
proof -
  note valid = C2_refresh_after_expiry [where w = "authenticator_world 999 1000" and a = 0
      and impl = "example_impl 1000" and e = "example_env (serving 200 None)"
      and req = example_get and nxt = reporting, OF heap_authenticator_world, THEN conjunct1]
  note expired = C2_refresh_after_expiry [where w = "authenticator_world 1001 1000" and a = 0
      and impl = "example_impl 1000" and e = "example_env (serving 200 None)"
      and req = example_get and nxt = reporting, OF heap_authenticator_world,
      THEN conjunct2, THEN conjunct1]
  have a: "intercept (example_env (serving 200 None)) 0 example_get reporting
        (authenticator_world 999 1000) =
     (Return (None, None), (authenticator_world 999 1000)\<lparr>trace := [Logged ''old'']\<rparr>)"
  proof -
    have early: "now (authenticator_world 999 1000) \<le> tokenExpiration (example_impl 1000)"
      by (simp add: authenticator_world_def example_impl_def)
    from valid [THEN mp, OF early] show ?thesis
      by (simp add: example_impl_def reporting_def Header_Set_def Header_Get_def
            trace_authenticator_world)
  qed
  have b: "trace (snd (intercept (example_env (serving 200 None)) 0 example_get reporting
        (authenticator_world 1001 1000))) =
     [Sent example_token_request, BodyRead 7, BodyClosed 7, Logged ''tok'']"
  proof -
    have late: "now (authenticator_world 1001 1000) > tokenExpiration (example_impl 1000)"
      by (simp add: authenticator_world_def example_impl_def)
    from expired [THEN mp, OF late] show ?thesis
      by (simp add: token_exchange_example decoded_token_def NewJsonEntity_def reporting_def
            Header_Set_def Header_Get_def)
  qed
  have c: "trace (snd (intercept (example_env (serving 200 None)) 0 example_get reporting
        (snd (intercept (example_env (serving 200 None)) 0 example_get reporting
           (authenticator_world 500 0))))) =
     [Sent example_token_request, BodyRead 7, BodyClosed 7, Logged ''tok'', Logged ''tok'']"
  proof -
    let ?w1 = "(authenticator_world 500 0)
        \<lparr>trace := [Sent example_token_request, BodyRead 7, BodyClosed 7, Logged ''tok''],
         heap := (heap (authenticator_world 500 0))
                   (0 \<mapsto> (example_impl 0)\<lparr>token := ''tok'', tokenExpiration := 1000\<rparr>)\<rparr>"
    have h: "heap ?w1 0 = Some ((example_impl 0)\<lparr>token := ''tok'', tokenExpiration := 1000\<rparr>)"
      by simp
    have early: "now ?w1 \<le>
        tokenExpiration ((example_impl 0)\<lparr>token := ''tok'', tokenExpiration := 1000\<rparr>)"
      by (simp add: authenticator_world_def)
    note again = C2_refresh_after_expiry [where w = ?w1 and a = 0
        and impl = "(example_impl 0)\<lparr>token := ''tok'', tokenExpiration := 1000\<rparr>"
        and e = "example_env (serving 200 None)"
        and req = example_get and nxt = reporting, OF h, THEN conjunct1, THEN mp, OF early]
    show ?thesis
      unfolding intercept_first_call_example snd_conv again
      by (simp add: reporting_def Header_Set_def Header_Get_def)
  qed
  from a b c show ?thesis by simp
qed

theorem C2_refresh_at_expiry_counterexample:
  "now (authenticator_world 1000 1000) = tokenExpiration (example_impl 1000)
   \<and> heap (authenticator_world 1000 1000) 0 = Some (example_impl 1000)
   \<and> intercept (example_env (serving 200 None)) 0 example_get reporting
        (authenticator_world 1000 1000) =
     (Return (None, None), (authenticator_world 1000 1000)\<lparr>trace := [Logged ''old'']\<rparr>)"
  by (simp add: intercept_def After_def authenticator_world_def example_impl_def reporting_def
        Header_Set_def Header_Get_def example_get_def)




section \<open>Construction and credentials of the authenticator\<close>

lemma authenticate_keeps_credentials:
  assumes "heap w a = Some impl" and "authenticate e a w = (r, w1)"
  shows "\<exists>impl1. heap w1 a = Some impl1 \<and> username impl1 = username impl \<and>
           password impl1 = password impl \<and> apikey impl1 = apikey impl"
proof -
  obtain out ro w2 where t: "token_exchange e impl w = ((out, ro), w2)"
    by (metis surj_pair)
  from token_exchange_heap [OF t] have h: "heap w2 = heap w" by simp
  from assms t h show ?thesis
    by (auto simp: authenticate_def update_impl_def split: outcome.splits option.splits)
qed

lemma authenticate_trace:
  assumes "heap w a = Some impl"
  shows "trace (snd (authenticate e a w)) = trace (snd (token_exchange e impl w))"
proof -
  obtain out ro w2 where t: "token_exchange e impl w = ((out, ro), w2)"
    by (metis surj_pair)
  from assms t show ?thesis
    by (auto simp: authenticate_def update_impl_def split: outcome.splits option.splits)
qed

lemma authenticate_sent:
  assumes "heap w a = Some impl"
    and "prepare e (restClient impl) None ''POST'' ''/v2.0/tokens'' []
          (Some (NewJsonEntity (ValueContent (credentials impl))))
          (Some (NewJsonEntity (ValueContent (IdentityAuthResp [] 0)))) = Inr treq"
  shows "\<exists>evs. trace (snd (authenticate e a w)) = trace w @ Sent treq # evs \<and>
           (\<forall>q. Sent q \<notin> set evs)"
proof -
  from token_exchange_sent [of e impl w] assms(2)
  obtain evs where "snd (token_exchange e impl w) = w\<lparr>trace := trace w @ Sent treq # evs\<rparr>"
    "\<forall>q. Sent q \<notin> set evs"
    by auto
  then show ?thesis
    by (intro exI [of _ evs]) (simp add: authenticate_trace [OF assms(1)])
qed

lemma intercept_refresh_sent:
  assumes "heap w a = Some impl" and "now w > tokenExpiration impl"
    and "prepare e (restClient impl) None ''POST'' ''/v2.0/tokens'' []
          (Some (NewJsonEntity (ValueContent (credentials impl))))
          (Some (NewJsonEntity (ValueContent (IdentityAuthResp [] 0)))) = Inr treq"
  shows "\<exists>evs out ro. (\<forall>q. Sent q \<notin> set evs) \<and>
     intercept e a req nxt w =
       (case out of
          Panic p \<Rightarrow> (Panic p, w\<lparr>trace := trace w @ Sent treq # evs\<rparr>)
        | Return (Some err) \<Rightarrow>
            (Return (None, Some (Wrap ''failed to issue token request'' err)),
             w\<lparr>trace := trace w @ Sent treq # evs\<rparr>)
        | Return None \<Rightarrow>
            nxt (req\<lparr>ReqHeader := Header_Set (ReqHeader req) ''x-auth-token''
                        (fst (decoded_token ro))\<rparr>)
              (w\<lparr>trace := trace w @ Sent treq # evs,
                 heap := (heap w)(a \<mapsto> impl\<lparr>token := fst (decoded_token ro),
                               tokenExpiration := snd (decoded_token ro)\<rparr>)\<rparr>))"
proof -
  obtain out ro w1 where t: "token_exchange e impl w = ((out, ro), w1)"
    by (metis surj_pair)
  from token_exchange_sent [of e impl w] assms(3) t
  obtain evs where evs: "w1 = w\<lparr>trace := trace w @ Sent treq # evs\<rparr>" "\<forall>q. Sent q \<notin> set evs"
    by auto
  show ?thesis
    by (intro exI [of _ evs] exI [of _ out] exI [of _ ro])
       (simp add: intercept_expired [OF assms(1,2)] t evs split: outcome.splits option.splits)
qed

lemma intercept_keeps_credentials:
  assumes "heap w a = Some impl" and "\<forall>r' v. heap (snd (nxt r' v)) a = heap v a"
  shows "\<exists>impl1. heap (snd (intercept e a req nxt w)) a = Some impl1 \<and>
           username impl1 = username impl \<and> password impl1 = password impl \<and>
           apikey impl1 = apikey impl"
proof (cases "now w \<le> tokenExpiration impl")
  case True
  show ?thesis
    by (simp add: intercept_valid [OF assms(1) True] assms)
next
  case False
  then have late: "now w > tokenExpiration impl" by simp
  obtain out ro w1 where t: "token_exchange e impl w = ((out, ro), w1)"
    by (metis surj_pair)
  from token_exchange_heap [OF t] have h: "heap w1 = heap w" by simp
  show ?thesis
    by (simp add: intercept_expired [OF assms(1) late] t h assms
          split: outcome.splits option.splits)
qed

text \<open>
  Claim C7.  Construction returns a configuration error and allocates nothing when the
  username is empty (\<open>username is required\<close>) and when password and API key are both
  empty (\<open>password or Apikey is required\<close> once a username is given).  With a username
  and a non-empty API key it succeeds whenever the identity URL parses, whatever the
  password.  For an authenticator object with a non-empty API key, also when a password
  is set: \<open>authenticate\<close> sends exactly one request, whose body is the encoding of the
  API-key credentials structure; an intercepted call after expiry has sent that request
  before it returns an error or calls \<open>next\<close>; and neither \<open>authenticate\<close> nor an
  intercepted call (whose continuation leaves the object alone) changes username,
  password or API key, so this holds for every later refresh.
\<close>

theorem C7_construction_and_precedence:
  "(u = [] \<longrightarrow>
      IdentityV2Authenticator e identityUrl u p k w = (Inl (Errorf ''username is required''), w))
   \<and> (u \<noteq> [] \<and> p = [] \<and> k = [] \<longrightarrow>
      IdentityV2Authenticator e identityUrl u p k w =
        (Inl (Errorf ''password or Apikey is required''), w))
   \<and> (p = [] \<and> k = [] \<longrightarrow>
      (\<exists>m. IdentityV2Authenticator e identityUrl u p k w = (Inl (Errorf m), w)))
   \<and> (u \<noteq> [] \<and> k \<noteq> [] \<and> url_Parse e identityUrl = Inr base \<longrightarrow>
      IdentityV2Authenticator e identityUrl u p k w =
        (Inr (intercept e (next_addr w)),
         w\<lparr>heap := (heap w)(next_addr w \<mapsto>
               \<lparr>username = u, password = p, apikey = k, restClient_BaseUrl = Some base,
                restClient_Timeout = authTimeout, token = [], tokenExpiration = 0\<rparr>),
           next_addr := Suc (next_addr w)\<rparr>))
   \<and> (heap w a = Some impl \<and> apikey impl \<noteq> [] \<and>
       prepare e (restClient impl) None ''POST'' ''/v2.0/tokens'' []
          (Some (NewJsonEntity (ValueContent (IdentityAuthApikeyReq (username impl) (apikey impl)))))
          (Some (NewJsonEntity (ValueContent (IdentityAuthResp [] 0)))) = Inr treq \<longrightarrow>
      (\<exists>evs. trace (snd (authenticate e a w)) = trace w @ Sent treq # evs \<and>
         (\<forall>q. Sent q \<notin> set evs))
      \<and> (\<exists>buffer.
            json_Encode e (ValueContent (IdentityAuthApikeyReq (username impl) (apikey impl))) =
              Inr buffer \<and>
            ReqBody treq = BufferBody buffer)
      \<and> (now w > tokenExpiration impl \<longrightarrow>
           (\<exists>evs out ro. (\<forall>q. Sent q \<notin> set evs) \<and>
              intercept e a req nxt w =
                (case out of
                   Panic pn \<Rightarrow> (Panic pn, w\<lparr>trace := trace w @ Sent treq # evs\<rparr>)
                 | Return (Some err) \<Rightarrow>
                     (Return (None, Some (Wrap ''failed to issue token request'' err)),
                      w\<lparr>trace := trace w @ Sent treq # evs\<rparr>)
                 | Return None \<Rightarrow>
                     nxt (req\<lparr>ReqHeader := Header_Set (ReqHeader req) ''x-auth-token''
                                 (fst (decoded_token ro))\<rparr>)
                       (w\<lparr>trace := trace w @ Sent treq # evs,
                          heap := (heap w)(a \<mapsto> impl\<lparr>token := fst (decoded_token ro),
                                        tokenExpiration := snd (decoded_token ro)\<rparr>)\<rparr>)))))
   \<and> (heap w a = Some impl \<and> authenticate e a w = (res, w1) \<longrightarrow>
      (\<exists>impl1. heap w1 a = Some impl1 \<and> username impl1 = username impl \<and>
         password impl1 = password impl \<and> apikey impl1 = apikey impl))
   \<and> (heap w a = Some impl \<and> (\<forall>r' v. heap (snd (nxt r' v)) a = heap v a) \<longrightarrow>
      (\<exists>impl1. heap (snd (intercept e a req nxt w)) a = Some impl1 \<and>
         username impl1 = username impl \<and> password impl1 = password impl \<and>
         apikey impl1 = apikey impl))"
proof (intro conjI impI)
  assume "u = []"
  then show "IdentityV2Authenticator e identityUrl u p k w =
      (Inl (Errorf ''username is required''), w)"
    by (simp add: IdentityV2Authenticator_def)
next
  assume "u \<noteq> [] \<and> p = [] \<and> k = []"
  then show "IdentityV2Authenticator e identityUrl u p k w =
      (Inl (Errorf ''password or Apikey is required''), w)"
    by (simp add: IdentityV2Authenticator_def)
next
  assume "p = [] \<and> k = []"
  then show "\<exists>m. IdentityV2Authenticator e identityUrl u p k w = (Inl (Errorf m), w)"
    by (simp add: IdentityV2Authenticator_def)
next
  assume "u \<noteq> [] \<and> k \<noteq> [] \<and> url_Parse e identityUrl = Inr base"
  then show "IdentityV2Authenticator e identityUrl u p k w =
        (Inr (intercept e (next_addr w)),
         w\<lparr>heap := (heap w)(next_addr w \<mapsto>
               \<lparr>username = u, password = p, apikey = k, restClient_BaseUrl = Some base,
                restClient_Timeout = authTimeout, token = [], tokenExpiration = 0\<rparr>),
           next_addr := Suc (next_addr w)\<rparr>)"
    by (simp add: IdentityV2Authenticator_def SetBaseUrl_def New_def)
next
  assume a: "heap w a = Some impl \<and> apikey impl \<noteq> [] \<and>
       prepare e (restClient impl) None ''POST'' ''/v2.0/tokens'' []
          (Some (NewJsonEntity (ValueContent (IdentityAuthApikeyReq (username impl) (apikey impl)))))
          (Some (NewJsonEntity (ValueContent (IdentityAuthResp [] 0)))) = Inr treq"
  then have c: "credentials impl = IdentityAuthApikeyReq (username impl) (apikey impl)"
    by (simp add: credentials_def)
  from a have h: "heap w a = Some impl"
    and prep: "prepare e (restClient impl) None ''POST'' ''/v2.0/tokens'' []
          (Some (NewJsonEntity (ValueContent (credentials impl))))
          (Some (NewJsonEntity (ValueContent (IdentityAuthResp [] 0)))) = Inr treq"
    by (simp_all add: c)
  show "\<exists>evs. trace (snd (authenticate e a w)) = trace w @ Sent treq # evs \<and>
         (\<forall>q. Sent q \<notin> set evs)"
    by (rule authenticate_sent [OF h prep])
  from prep have b: "buildBodyReader e
      (Some (NewJsonEntity (ValueContent (IdentityAuthApikeyReq (username impl) (apikey impl))))) =
      Inr (ReqBody treq)"
    unfolding c by (rule prepare_ReqBody)
  then show "\<exists>buffer.
      json_Encode e (ValueContent (IdentityAuthApikeyReq (username impl) (apikey impl))) =
        Inr buffer \<and>
      ReqBody treq = BufferBody buffer"
    by (auto simp: buildBodyReader_def NewJsonEntity_def split: sum.splits)
  assume late: "now w > tokenExpiration impl"
  from intercept_refresh_sent [OF h late prep, of req nxt]
  show "\<exists>evs out ro. (\<forall>q. Sent q \<notin> set evs) \<and>
      intercept e a req nxt w =
        (case out of
           Panic pn \<Rightarrow> (Panic pn, w\<lparr>trace := trace w @ Sent treq # evs\<rparr>)
         | Return (Some err) \<Rightarrow>
             (Return (None, Some (Wrap ''failed to issue token request'' err)),
              w\<lparr>trace := trace w @ Sent treq # evs\<rparr>)
         | Return None \<Rightarrow>
             nxt (req\<lparr>ReqHeader := Header_Set (ReqHeader req) ''x-auth-token''
                         (fst (decoded_token ro))\<rparr>)
               (w\<lparr>trace := trace w @ Sent treq # evs,
                  heap := (heap w)(a \<mapsto> impl\<lparr>token := fst (decoded_token ro),
                                tokenExpiration := snd (decoded_token ro)\<rparr>)\<rparr>))" .
next
  assume "heap w a = Some impl \<and> authenticate e a w = (res, w1)"
  then show "\<exists>impl1. heap w1 a = Some impl1 \<and> username impl1 = username impl \<and>
         password impl1 = password impl \<and> apikey impl1 = apikey impl"
    using authenticate_keeps_credentials by blast
next
  assume "heap w a = Some impl \<and> (\<forall>r' v. heap (snd (nxt r' v)) a = heap v a)"
  then show "\<exists>impl1. heap (snd (intercept e a req nxt w)) a = Some impl1 \<and>
         username impl1 = username impl \<and> password impl1 = password impl \<and>
         apikey impl1 = apikey impl"
    using intercept_keeps_credentials by blast
qed

lemma token_exchange_serving:
  assumes "username impl = ''user''" and "apikey impl = ''key''"
    and "restClient_BaseUrl impl = Some \<lparr>raw = ''https://identity'', RawQuery = []\<rparr>"
    and "restClient_Timeout impl = 60"
  shows "token_exchange (example_env (serving 200 None)) impl w =
     ((Return None, Some (NewJsonEntity (ValueContent (IdentityAuthResp ''tok'' 1000)))),
      w\<lparr>trace := trace w @ [Sent example_token_request, BodyRead 7, BodyClosed 7]\<rparr>)"
  using assms
  by (simp add: token_exchange_def Exchange_def ExchangeWithContext_def buildReqUrl_def
        buildBodyReader_def buildRequest_def processResponseContent_def Body_Close_def
        restClient_def example_env_def serving_def NewJsonEntity_def
        JsonType_def timeout_def Header_Set_def headerAccept_def headerContentType_def
        example_token_request_def example_response_def example_body_def
        credentials_def example_encode_def)

lemma intercept_serving:
  assumes "heap w 0 = Some impl" and "now w > tokenExpiration impl"
    and "username impl = ''user''" and "apikey impl = ''key''"
    and "restClient_BaseUrl impl = Some \<lparr>raw = ''https://identity'', RawQuery = []\<rparr>"
    and "restClient_Timeout impl = 60"
  shows "intercept (example_env (serving 200 None)) 0 example_get reporting w =
     (Return (None, None),
      w\<lparr>trace := trace w @
           [Sent example_token_request, BodyRead 7, BodyClosed 7, Logged ''tok''],
         heap := (heap w)(0 \<mapsto> impl\<lparr>token := ''tok'', tokenExpiration := 1000\<rparr>)\<rparr>)"
  by (simp add: intercept_expired [OF assms(1,2)] token_exchange_serving [OF assms(3-6)]
        decoded_token_def NewJsonEntity_def reporting_def Header_Set_def Header_Get_def)

theorem C7_construction_and_precedence_witness:
  "IdentityV2Authenticator (example_env (serving 200 None)) ''https://identity'' [] ''secret'' ''key''
       (example_world 1001) =
     (Inl (Errorf ''username is required''), example_world 1001)
   \<and> IdentityV2Authenticator (example_env (serving 200 None)) ''https://identity'' ''user'' [] []
       (example_world 1001) =
     (Inl (Errorf ''password or Apikey is required''), example_world 1001)
   \<and> fst (IdentityV2Authenticator (example_env (serving 200 None)) ''https://identity'' ''user''
       ''secret'' ''key'' (example_world 1001)) =
     Inr (intercept (example_env (serving 200 None)) 0)
   \<and> (\<exists>evs. trace (snd (authenticate (example_env (serving 200 None)) 0
         (snd (IdentityV2Authenticator (example_env (serving 200 None)) ''https://identity''
            ''user'' ''secret'' ''key'' (example_world 1001))))) =
       Sent example_token_request # evs)
   \<and> ReqBody example_token_request = BufferBody ''apiKeyCredentials user key''
   \<and> trace (snd (intercept (example_env (serving 200 None)) 0 example_get reporting
         (snd (IdentityV2Authenticator (example_env (serving 200 None)) ''https://identity''
            ''user'' ''secret'' ''key'' (example_world 1001))))) =
       [Sent example_token_request, BodyRead 7, BodyClosed 7, Logged ''tok'']
   \<and> trace (snd (intercept (example_env (serving 200 None)) 0 example_get reporting
         (snd (intercept (example_env (serving 200 None)) 0 example_get reporting
           (snd (IdentityV2Authenticator (example_env (serving 200 None)) ''https://identity''
              ''user'' ''secret'' ''key'' (example_world 1001))))))) =
       [Sent example_token_request, BodyRead 7, BodyClosed 7, Logged ''tok'',
        Sent example_token_request, BodyRead 7, BodyClosed 7, Logged ''tok'']"
proof -
  let ?e = "example_env (serving 200 None)"
  let ?impl = "\<lparr>username = ''user'', password = ''secret'', apikey = ''key'',
      restClient_BaseUrl = Some \<lparr>raw = ''https://identity'', RawQuery = []\<rparr>,
      restClient_Timeout = authTimeout, token = [], tokenExpiration = 0\<rparr>"
  let ?w1 = "(example_world 1001)\<lparr>heap := (heap (example_world 1001))
         (next_addr (example_world 1001) \<mapsto> ?impl),
         next_addr := Suc (next_addr (example_world 1001))\<rparr>"
  let ?w2 = "?w1\<lparr>trace := trace ?w1 @
           [Sent example_token_request, BodyRead 7, BodyClosed 7, Logged ''tok''],
         heap := (heap ?w1)(0 \<mapsto> ?impl\<lparr>token := ''tok'', tokenExpiration := 1000\<rparr>)\<rparr>"
  note inst = C7_construction_and_precedence [where e = ?e
      and identityUrl = "''https://identity''" and w = "example_world 1001"
      and base = "\<lparr>raw = ''https://identity'', RawQuery = []\<rparr>"]
  have n: "next_addr (example_world 1001) = 0" by (simp add: example_world_def)
  have u: "url_Parse ?e ''https://identity'' = Inr \<lparr>raw = ''https://identity'', RawQuery = []\<rparr>"
    by (simp add: example_env_def)
  have a: "IdentityV2Authenticator ?e ''https://identity'' [] ''secret'' ''key''
       (example_world 1001) = (Inl (Errorf ''username is required''), example_world 1001)"
    using inst [where u = "[]" and p = "''secret''" and k = "''key''", THEN conjunct1] by simp
  have b: "IdentityV2Authenticator ?e ''https://identity'' ''user'' [] [] (example_world 1001) =
     (Inl (Errorf ''password or Apikey is required''), example_world 1001)"
    using inst [where u = "''user''" and p = "[]" and k = "[]", THEN conjunct2, THEN conjunct1]
    by simp
  have made: "IdentityV2Authenticator ?e ''https://identity'' ''user'' ''secret'' ''key''
       (example_world 1001) = (Inr (intercept ?e 0), ?w1)"
    using inst [where u = "''user''" and p = "''secret''" and k = "''key''",
        THEN conjunct2, THEN conjunct2, THEN conjunct2, THEN conjunct1] u
    by (simp add: n)
  have h1: "heap ?w1 0 = Some ?impl" by (simp add: n)
  have t1: "trace ?w1 = []" by (simp add: example_world_def)
  have late1: "now ?w1 > tokenExpiration ?impl" by (simp add: example_world_def)
  have prep: "prepare ?e (restClient ?impl) None ''POST'' ''/v2.0/tokens'' []
        (Some (NewJsonEntity (ValueContent
           (IdentityAuthApikeyReq (username ?impl) (apikey ?impl)))))
        (Some (NewJsonEntity (ValueContent (IdentityAuthResp [] 0)))) = Inr example_token_request"
    by (simp add: prepare_def buildReqUrl_def buildBodyReader_def buildRequest_def
        restClient_def example_env_def NewJsonEntity_def authTimeout_def
        JsonType_def timeout_def Header_Set_def headerAccept_def headerContentType_def
        example_token_request_def example_encode_def)
  have key: "apikey ?impl \<noteq> []" by simp
  from C7_construction_and_precedence [where e = ?e and w = ?w1 and a = 0 and impl = ?impl
      and treq = example_token_request,
      THEN conjunct2, THEN conjunct2, THEN conjunct2, THEN conjunct2, THEN conjunct1,
      THEN mp, OF conjI [OF h1 conjI [OF key prep]], THEN conjunct1]
  have c: "\<exists>evs. trace (snd (authenticate ?e 0 ?w1)) = Sent example_token_request # evs"
    by (auto simp: t1)
  have d: "ReqBody example_token_request = BufferBody ''apiKeyCredentials user key''"
    by (simp add: example_token_request_def)
  have first: "intercept ?e 0 example_get reporting ?w1 = (Return (None, None), ?w2)"
    by (rule intercept_serving [OF h1 late1]) (simp_all add: authTimeout_def)
  have h2: "heap ?w2 0 = Some (?impl\<lparr>token := ''tok'', tokenExpiration := 1000\<rparr>)" by simp
  have late2: "now ?w2 > tokenExpiration (?impl\<lparr>token := ''tok'', tokenExpiration := 1000\<rparr>)"
    by (simp add: example_world_def)
  have second: "trace (snd (intercept ?e 0 example_get reporting ?w2)) =
      trace ?w2 @ [Sent example_token_request, BodyRead 7, BodyClosed 7, Logged ''tok'']"
    by (subst intercept_serving [OF h2 late2]) (simp_all add: authTimeout_def)
  show ?thesis
    unfolding made fst_conv snd_conv first second
    using a b c d by (simp add: t1)
qed

end
